theory Spec2Isabelle
  imports Complex_Main "HOL-Library.AList" "HOL-Library.Sublist"
    "HOL-Library.Char_ord" "HOL-Library.List_Lexorder"
begin

section \<open>The RAG pipeline of services/rag\_pipeline.py\<close>

text \<open>
  The pipeline is a Python class \<^verbatim>\<open>RAGPipeline\<close> bound to one user id. It talks to
  four outside parties: the Firestore collection \<^verbatim>\<open>rag\<close> (one document per user with a
  subcollection \<^verbatim>\<open>chunks\<close>), the realtime database (RTDB) node of the user, the
  embedding and generation model, and two libraries (BeautifulSoup, the langchain text
  splitter). The persistent data is a record \<open>world\<close> that every method takes and
  returns; what the outside parties answer, and whether a call to them raises, is a
  record \<open>env\<close> of oracles. Python floats are read as real numbers, timestamps
  (\<^verbatim>\<open>datetime.now()\<close>) and console output are left out.
\<close>

subsection \<open>Constants\<close>

definition EMBED_MODEL :: string where "EMBED_MODEL = ''text-embedding-004''"
definition GEN_MODEL :: string where "GEN_MODEL = ''gemini-2.5-flash''"
definition TOP_K :: nat where "TOP_K = 5"
definition MAX_PAGES_FOR_TESTING :: nat where "MAX_PAGES_FOR_TESTING = 999999"
definition CHUNK_SIZE :: nat where "CHUNK_SIZE = 1000"
definition CHUNK_OVERLAP :: nat where "CHUNK_OVERLAP = 200"

text \<open>The literal 768 of \<^verbatim>\<open>[0.0] * 768\<close> ("Standard embedding dimension").\<close>

definition EMBED_DIM :: nat where "EMBED_DIM = 768"

subsection \<open>Data\<close>

type_synonym vec = "real list"

datatype exn = AttributeError | IndexError | Error string

fun str_exn :: "exn \<Rightarrow> string" where
  "str_exn AttributeError = ''AttributeError''"
| "str_exn IndexError = ''list index out of range''"
| "str_exn (Error s) = s"

datatype jval = JStr string | JNat nat | JBool bool | JObj "(string \<times> jval) list"

type_synonym details = "(string \<times> jval) list"

record status_msg =
  sm_step :: string
  sm_details :: details

record chunk_meta =
  page_id :: string
  page_name :: string
  chunk_index :: nat
  total_chunks :: nat
  char_count :: nat
  user_id :: string

record chunk =
  chunk_id :: string
  chunk_text :: string
  metadata :: chunk_meta

text \<open>A chunk record of the subcollection: \<^verbatim>\<open>{**chunk, "embedding": ..., "embedding_dimension": ...}\<close>.\<close>

record stored_chunk =
  sc_id :: string
  sc_text :: string
  sc_metadata :: chunk_meta
  embedding :: vec
  embedding_dimension :: nat

record index_meta =
  im_total_chunks :: nat
  im_total_pages :: nat
  im_embedding_model :: string
  im_chunk_size :: nat
  im_chunk_overlap :: nat

record rag_doc =
  rd_user_id :: string
  rd_metadata :: index_meta

record rag_status =
  rs_enabled :: bool
  rs_total_chunks :: nat
  rs_total_pages :: nat
  rs_firestore_doc_id :: string
  rs_status :: string

text \<open>
  The persistent state. \<open>rag_docs\<close> is the Firestore collection \<^verbatim>\<open>rag\<close>;
  \<open>rag_chunks u\<close> is the subcollection \<^verbatim>\<open>rag/u/chunks\<close>, an association list from
  the number \<open>n\<close> of the document id \<^verbatim>\<open>chunk_n\<close> to the record; \<open>rtdb_rag\<close> is the RTDB
  node \<^verbatim>\<open>users/u/rag\<close> and \<open>current_step\<close> its child \<^verbatim>\<open>currentStep\<close>.
\<close>

record world =
  rag_docs :: "string \<Rightarrow> rag_doc option"
  rag_chunks :: "string \<Rightarrow> (nat \<times> stored_chunk) list"
  rtdb_rag :: "string \<Rightarrow> rag_status option"
  current_step :: "string \<Rightarrow> status_msg option"

record page_meta =
  pm_name :: "string option"
  pm_notebookId :: string
  pm_sectionId :: string
  pm_topicId :: string

record page_doc =
  pd_name :: "string option"
  pd_content :: string
  pd_owner :: string

record page =
  pg_id :: string
  pg_name :: string
  pg_content :: string
  pg_owner :: string
  pg_notebook :: string
  pg_section :: string
  pg_topic :: string

text \<open>
  The outside parties. An \<open>exn option\<close> says whether the call raises (\<open>Some e\<close>) or
  not; a sum gives the exception or the answer. \<open>batch_embed_contents env texts\<close> is
  the exception of the batch call (or of reading \<^verbatim>\<open>result.embeddings\<close>), or the list
  \<^verbatim>\<open>result.embeddings\<close>, each member of which gives its \<^verbatim>\<open>values\<close> or raises when they
  are read. \<open>embed_content env t\<close> is
  \<^verbatim>\<open>result.embeddings[0].values\<close> of the request for \<open>t\<close>, \<open>generate_content env p\<close> the
  \<^verbatim>\<open>text\<close> of the response to the prompt \<open>p\<close>; an answer without them is one of the
  exceptions. A page document has its fields with the defaults of \<^verbatim>\<open>data.get\<close> applied
  (\<^verbatim>\<open>content\<close> and \<^verbatim>\<open>owner\<close> empty when absent).
\<close>

record env =
  rtdb_set :: "string \<Rightarrow> details \<Rightarrow> exn option"
  rtdb_rag_set :: "exn option"
  rtdb_page_index :: "exn + (string \<times> page_meta) list"
  fs_page_get :: "string \<Rightarrow> exn + page_doc option"
  fs_doc_get :: "exn option"
  fs_doc_delete :: "exn option"
  fs_doc_set :: "exn option"
  fs_batch_commit :: "nat \<Rightarrow> exn option"
  fs_stream :: "exn option"
  batch_embed_contents :: "string list \<Rightarrow> exn + (exn + vec) list"
  embed_content :: "string \<Rightarrow> exn + vec"
  generate_content :: "string \<Rightarrow> exn + string"
  soup_get_text :: "string \<Rightarrow> string"
  split_text :: "string \<Rightarrow> string list"
  uuid4 :: "nat \<Rightarrow> string"
  format_score :: "real \<Rightarrow> string"

text \<open>
  What a method does: it raises an exception or returns a value, and in both cases it
  leaves a state behind (writes made before a raise stay).
\<close>

datatype 'a outcome = Raises exn world | Returns 'a world

definition then_do :: "'a outcome \<Rightarrow> ('a \<Rightarrow> world \<Rightarrow> 'b outcome) \<Rightarrow> 'b outcome" where
  "then_do m f = (case m of Raises e w \<Rightarrow> Raises e w | Returns x w \<Rightarrow> f x w)"

text \<open>\<^verbatim>\<open>try: m  except Exception as e: h\<close>\<close>

definition on_exception :: "'a outcome \<Rightarrow> (exn \<Rightarrow> world \<Rightarrow> 'a outcome) \<Rightarrow> 'a outcome" where
  "on_exception m h = (case m of Raises e w \<Rightarrow> h e w | Returns x w \<Rightarrow> Returns x w)"

fun final_world :: "'a outcome \<Rightarrow> world" where
  "final_world (Raises e w) = w"
| "final_world (Returns x w) = w"

fun returns :: "'a outcome \<Rightarrow> bool" where
  "returns (Raises e w) = False"
| "returns (Returns x w) = True"

text \<open>\<^verbatim>\<open>for batch_start in range(0, len(xs), batch_size)\<close> with the slice
  \<^verbatim>\<open>xs[batch_start:min(batch_start + batch_size, len(xs))]\<close> of each round.\<close>

function batches_from :: "nat \<Rightarrow> nat \<Rightarrow> 'a list \<Rightarrow> (nat \<times> 'a list) list" where
  "batches_from batch_size batch_start xs =
     (if 0 < batch_size \<and> batch_start < length xs
      then (batch_start,
            take (min (batch_start + batch_size) (length xs) - batch_start) (drop batch_start xs))
           # batches_from batch_size (batch_start + batch_size) xs
      else [])"
  by pat_completeness auto
termination
  by (relation "measure (\<lambda>(bs, s, xs). length xs - s)") auto

declare batches_from.simps [simp del]

subsection \<open>log\_step\<close>

definition log_step :: "env \<Rightarrow> string \<Rightarrow> string \<Rightarrow> details \<Rightarrow> world \<Rightarrow> unit outcome" where
  "log_step env u step dets w =
     (case rtdb_set env step dets of
        Some e \<Rightarrow> Raises e w
      | None \<Rightarrow> Returns () (w\<lparr>current_step := (current_step w)(u \<mapsto> \<lparr>sm_step = step, sm_details = dets\<rparr>)\<rparr>))"

subsection \<open>The Firestore calls\<close>

text \<open>\<^verbatim>\<open>self.rag_collection.document(self.user_id).get().exists\<close>\<close>

definition doc_exists :: "env \<Rightarrow> string \<Rightarrow> world \<Rightarrow> bool outcome" where
  "doc_exists env u w =
     (case fs_doc_get env of
        Some e \<Rightarrow> Raises e w
      | None \<Rightarrow> Returns (rag_docs w u \<noteq> None) w)"

text \<open>
  \<^verbatim>\<open>user_rag_doc.delete()\<close>: Firestore deletes the document named; the documents of
  its subcollections are not deleted with it.
\<close>

definition doc_delete :: "env \<Rightarrow> string \<Rightarrow> world \<Rightarrow> unit outcome" where
  "doc_delete env u w =
     (case fs_doc_delete env of
        Some e \<Rightarrow> Raises e w
      | None \<Rightarrow> Returns () (w\<lparr>rag_docs := (rag_docs w)(u := None)\<rparr>))"

definition doc_set :: "env \<Rightarrow> string \<Rightarrow> rag_doc \<Rightarrow> world \<Rightarrow> unit outcome" where
  "doc_set env u d w =
     (case fs_doc_set env of
        Some e \<Rightarrow> Raises e w
      | None \<Rightarrow> Returns () (w\<lparr>rag_docs := (rag_docs w)(u \<mapsto> d)\<rparr>))"

text \<open>A write batch: the \<^verbatim>\<open>batch.set\<close> calls take effect together at \<^verbatim>\<open>batch.commit()\<close>.\<close>

definition batch_commit ::
  "env \<Rightarrow> string \<Rightarrow> nat \<Rightarrow> (nat \<times> stored_chunk) list \<Rightarrow> world \<Rightarrow> unit outcome" where
  "batch_commit env u batch_start sets w =
     (case fs_batch_commit env batch_start of
        Some e \<Rightarrow> Raises e w
      | None \<Rightarrow> Returns ()
          (w\<lparr>rag_chunks := (rag_chunks w)(u := fold (\<lambda>(k, v). AList.update k v) sets (rag_chunks w u))\<rparr>))"

definition rag_status_set :: "env \<Rightarrow> string \<Rightarrow> rag_status \<Rightarrow> world \<Rightarrow> unit outcome" where
  "rag_status_set env u s w =
     (case rtdb_rag_set env of
        Some e \<Rightarrow> Raises e w
      | None \<Rightarrow> Returns ()
          (w\<lparr>rtdb_rag := (rtdb_rag w)(u \<mapsto> s), current_step := (current_step w)(u := None)\<rparr>))"

subsection \<open>clear\_old\_vectors\<close>

definition clear_old_vectors :: "env \<Rightarrow> string \<Rightarrow> world \<Rightarrow> unit outcome" where
  "clear_old_vectors env u w =
     then_do (log_step env u ''Clearing Old Vectors'' [(''status'', JStr ''starting'')] w) (\<lambda>_ w1.
       on_exception
         (then_do (doc_exists env u w1) (\<lambda>ex w2.
            if ex then
              then_do (doc_delete env u w2) (\<lambda>_ w3.
                log_step env u ''Old Vectors Cleared'' [(''status'', JStr ''completed'')] w3)
            else log_step env u ''No Old Vectors'' [(''status'', JStr ''none_found'')] w2))
         (\<lambda>e w4. log_step env u ''Clear Vectors''
                   [(''status'', JStr ''error''), (''error'', JStr (str_exn e))] w4))"

subsection \<open>store\_vectors\_in\_firestore\<close>

definition with_vector :: "chunk \<Rightarrow> vec \<Rightarrow> stored_chunk" where
  "with_vector c e =
     \<lparr>sc_id = chunk_id c, sc_text = chunk_text c, sc_metadata = metadata c,
      embedding = e, embedding_dimension = length e\<rparr>"

text \<open>The loop that builds \<^verbatim>\<open>chunks_with_vectors\<close>; \<^verbatim>\<open>embeddings[i]\<close> raises IndexError
  at the first \<open>i\<close> past the end of \<open>embeddings\<close>, before anything is written.\<close>

definition chunks_with_vectors :: "chunk list \<Rightarrow> vec list \<Rightarrow> exn + stored_chunk list" where
  "chunks_with_vectors chunks embeddings =
     (if length embeddings < length chunks then Inl IndexError
      else Inr (map (\<lambda>i. with_vector (chunks ! i) (embeddings ! i)) [0..<length chunks]))"

fun store_batches ::
  "env \<Rightarrow> string \<Rightarrow> (nat \<times> stored_chunk list) list \<Rightarrow> world \<Rightarrow> unit outcome" where
  "store_batches env u [] w = Returns () w"
| "store_batches env u ((batch_start, batch_chunks) # rest) w =
     (case batch_commit env u batch_start (enumerate batch_start batch_chunks) w of
        Raises e w' \<Rightarrow> Raises e w'
      | Returns _ w' \<Rightarrow> store_batches env u rest w')"

definition write_index :: "env \<Rightarrow> string \<Rightarrow> chunk list \<Rightarrow> vec list \<Rightarrow> world \<Rightarrow> unit outcome" where
  "write_index env u chunks embeddings w =
     (case chunks_with_vectors chunks embeddings of
        Inl e \<Rightarrow> Raises e w
      | Inr cwv \<Rightarrow>
          (let unique_pages = length (remdups (map (\<lambda>c. page_id (metadata c)) chunks)) in
           then_do (doc_set env u
                      \<lparr>rd_user_id = u,
                       rd_metadata = \<lparr>im_total_chunks = length cwv, im_total_pages = unique_pages,
                                      im_embedding_model = EMBED_MODEL, im_chunk_size = CHUNK_SIZE,
                                      im_chunk_overlap = CHUNK_OVERLAP\<rparr>\<rparr> w) (\<lambda>_ w1.
           then_do (store_batches env u (batches_from 50 0 cwv) w1) (\<lambda>_ w2.
           then_do (rag_status_set env u
                      \<lparr>rs_enabled = True, rs_total_chunks = length cwv,
                       rs_total_pages = unique_pages, rs_firestore_doc_id = u,
                       rs_status = ''ready''\<rparr> w2) (\<lambda>_ w3.
           log_step env u ''Vectors Stored''
             [(''firestore_doc_id'', JStr u), (''total_chunks_stored'', JNat (length cwv)),
              (''total_pages'', JNat unique_pages), (''status'', JStr ''completed'')] w3)))))"

text \<open>The body of the \<^verbatim>\<open>try\<close> is \<open>clear_old_vectors\<close> followed by \<open>write_index\<close>; the
  handler logs and raises the exception again.\<close>

definition store_vectors_in_firestore ::
  "env \<Rightarrow> string \<Rightarrow> chunk list \<Rightarrow> vec list \<Rightarrow> world \<Rightarrow> unit outcome" where
  "store_vectors_in_firestore env u chunks embeddings w =
     then_do (log_step env u ''Storing Vectors''
                [(''status'', JStr ''starting''), (''chunks_count'', JNat (length chunks))] w) (\<lambda>_ w1.
       on_exception
         (then_do (clear_old_vectors env u w1) (\<lambda>_ w2. write_index env u chunks embeddings w2))
         (\<lambda>e w3. then_do (log_step env u ''Storing Vectors''
                            [(''status'', JStr ''error''), (''error'', JStr (str_exn e))] w3)
                    (\<lambda>_ w4. Raises e w4)))"

subsection \<open>Strings\<close>

text \<open>\<^verbatim>\<open>str.isspace\<close> on the characters below 256, \<^verbatim>\<open>str.strip()\<close>, \<^verbatim>\<open>str.splitlines()\<close>
  and \<^verbatim>\<open>"\n".join\<close>.\<close>

definition py_isspace :: "char \<Rightarrow> bool" where
  "py_isspace c =
     (let n = (of_char c :: nat) in (9 \<le> n \<and> n \<le> 13) \<or> (28 \<le> n \<and> n \<le> 32) \<or> n = 133 \<or> n = 160)"

definition strip :: "string \<Rightarrow> string" where
  "strip s = rev (dropWhile py_isspace (rev (dropWhile py_isspace s)))"

definition is_linebreak :: "char \<Rightarrow> bool" where
  "is_linebreak c =
     (let n = (of_char c :: nat) in (10 \<le> n \<and> n \<le> 13) \<or> (28 \<le> n \<and> n \<le> 30) \<or> n = 133)"

fun splitlines_from :: "string \<Rightarrow> string \<Rightarrow> string list" where
  "splitlines_from cur [] = (if cur = [] then [] else [cur])"
| "splitlines_from cur (c # cs) =
     (if is_linebreak c then
        (case cs of
           d # ds \<Rightarrow>
             if c = CHR 0x0D \<and> d = CHR 0x0A then cur # splitlines_from [] ds
             else cur # splitlines_from [] cs
         | [] \<Rightarrow> cur # splitlines_from [] cs)
      else splitlines_from (cur @ [c]) cs)"

definition splitlines :: "string \<Rightarrow> string list" where
  "splitlines s = splitlines_from [] s"

fun join :: "string \<Rightarrow> string list \<Rightarrow> string" where
  "join sep [] = []"
| "join sep [x] = x"
| "join sep (x # y # ys) = x @ sep @ join sep (y # ys)"

definition digit_char :: "nat \<Rightarrow> char" where
  "digit_char d = char_of (48 + d)"

text \<open>\<^verbatim>\<open>str(n)\<close> for a number that is not negative.\<close>

function str_nat :: "nat \<Rightarrow> string" where
  "str_nat n = (if n < 10 then [digit_char n] else str_nat (n div 10) @ [digit_char (n mod 10)])"
  by pat_completeness auto
termination
  by (relation "measure (\<lambda>n. n)") auto

declare str_nat.simps [simp del]

subsection \<open>html\_to\_text\<close>

text \<open>\<open>soup_get_text env html\<close> is the text that BeautifulSoup gives for \<open>html\<close> once the
  script, style and noscript tags are taken out (\<^verbatim>\<open>soup.get_text("\n")\<close>).\<close>

definition html_to_text :: "env \<Rightarrow> string \<Rightarrow> string" where
  "html_to_text env html_content =
     (if html_content = [] then []
      else strip (join [CHR 0x0A]
                    (filter (\<lambda>line. line \<noteq> []) (map strip (splitlines (soup_get_text env html_content))))))"

subsection \<open>load\_user\_pages\<close>

fun fetch_batch ::
  "env \<Rightarrow> string list \<Rightarrow> (string \<times> page_doc option) list \<times> nat
     \<Rightarrow> (string \<times> page_doc option) list \<times> nat" where
  "fetch_batch env [] (batch_docs, pages_missing) = (batch_docs, pages_missing)"
| "fetch_batch env (pid # pids) (batch_docs, pages_missing) =
     (case fs_page_get env pid of
        Inl e \<Rightarrow> fetch_batch env pids (batch_docs, pages_missing + 1)
      | Inr page_doc \<Rightarrow> fetch_batch env pids (batch_docs @ [(pid, page_doc)], pages_missing))"

text \<open>The counters are, in this order, \<^verbatim>\<open>pages_with_content\<close>, \<^verbatim>\<open>pages_empty\<close> and
  \<^verbatim>\<open>pages_missing\<close>.\<close>

fun process_batch ::
  "(string \<times> page_meta) list \<Rightarrow> (string \<times> page_doc option) list
     \<Rightarrow> page list \<times> nat \<times> nat \<times> nat \<Rightarrow> page list \<times> nat \<times> nat \<times> nat" where
  "process_batch page_index [] acc = acc"
| "process_batch page_index ((pid, None) # rest) (pages_data, wc, em, mi) =
     process_batch page_index rest (pages_data, wc, em, mi + 1)"
| "process_batch page_index ((pid, Some data) # rest) (pages_data, wc, em, mi) =
     (let page_meta = map_of page_index pid;
          content = strip (pd_content data);
          p = \<lparr>pg_id = pid,
               pg_name = (case pd_name data of
                            Some n \<Rightarrow> n
                          | None \<Rightarrow> (case page_meta of
                                       None \<Rightarrow> ''Untitled''
                                     | Some m \<Rightarrow> (case pm_name m of None \<Rightarrow> ''Untitled'' | Some n \<Rightarrow> n))),
               pg_content = content,
               pg_owner = pd_owner data,
               pg_notebook = (case page_meta of None \<Rightarrow> [] | Some m \<Rightarrow> pm_notebookId m),
               pg_section = (case page_meta of None \<Rightarrow> [] | Some m \<Rightarrow> pm_sectionId m),
               pg_topic = (case page_meta of None \<Rightarrow> [] | Some m \<Rightarrow> pm_topicId m)\<rparr>
      in if content \<noteq> [] then process_batch page_index rest (pages_data @ [p], wc + 1, em, mi)
         else process_batch page_index rest (pages_data @ [p], wc, em + 1, mi))"

fun load_batches ::
  "env \<Rightarrow> (string \<times> page_meta) list \<Rightarrow> (nat \<times> string list) list
     \<Rightarrow> page list \<times> nat \<times> nat \<times> nat \<Rightarrow> page list \<times> nat \<times> nat \<times> nat" where
  "load_batches env page_index [] acc = acc"
| "load_batches env page_index ((batch_start, batch_ids) # rest) (pages_data, wc, em, mi) =
     (case fetch_batch env batch_ids ([], mi) of
        (batch_docs, mi') \<Rightarrow>
          load_batches env page_index rest (process_batch page_index batch_docs (pages_data, wc, em, mi')))"

definition load_user_pages :: "env \<Rightarrow> string \<Rightarrow> world \<Rightarrow> page list outcome" where
  "load_user_pages env u w =
     then_do (log_step env u ''Loading Pages'' [(''status'', JStr ''starting'')] w) (\<lambda>_ w1.
       on_exception
         (case rtdb_page_index env of
            Inl e \<Rightarrow> Raises e w1
          | Inr page_index \<Rightarrow>
              if page_index = [] then
                then_do (log_step env u ''Pages Loaded''
                           [(''total_pages'', JNat 0), (''status'', JStr ''completed'')] w1)
                  (\<lambda>_ w2. Returns [] w2)
              else
                (let all_page_ids = map fst page_index;
                     page_ids_to_process = take MAX_PAGES_FOR_TESTING all_page_ids
                 in case load_batches env page_index (batches_from 50 0 page_ids_to_process) ([], 0, 0, 0) of
                      (pages_data, wc, em, mi) \<Rightarrow>
                        then_do (log_step env u ''Pages Loaded''
                                   [(''total_found'', JNat (length all_page_ids)),
                                    (''processed'', JNat (length page_ids_to_process)),
                                    (''with_content'', JNat wc), (''empty'', JNat em),
                                    (''missing'', JNat mi), (''status'', JStr ''completed'')] w1)
                          (\<lambda>_ w2. Returns pages_data w2)))
         (\<lambda>e w3. then_do (log_step env u ''Loading Pages''
                            [(''status'', JStr ''error''), (''error'', JStr (str_exn e))] w3)
                    (\<lambda>_ w4. Raises e w4)))"

subsection \<open>create\_chunks\_with\_metadata\<close>

text \<open>\<open>split_text env\<close> is \<^verbatim>\<open>RecursiveCharacterTextSplitter(chunk_size=CHUNK_SIZE,
  chunk_overlap=CHUNK_OVERLAP, length_function=len).split_text\<close> of langchain; \<open>uuid4 env n\<close>
  is the identifier drawn for the \<open>n\<close>-th chunk made.\<close>

definition page_chunks :: "env \<Rightarrow> string \<Rightarrow> page \<Rightarrow> nat \<Rightarrow> string list \<Rightarrow> chunk list" where
  "page_chunks env u p made chunks =
     map (\<lambda>(i, chunk_text).
            \<lparr>chunk_id = uuid4 env (made + i), chunk_text = chunk_text,
             metadata = \<lparr>page_id = pg_id p, page_name = pg_name p, chunk_index = i,
                         total_chunks = length chunks, char_count = length chunk_text,
                         user_id = u\<rparr>\<rparr>)
         (enumerate 0 chunks)"

fun chunk_pages :: "env \<Rightarrow> string \<Rightarrow> page list \<Rightarrow> chunk list \<times> nat \<Rightarrow> chunk list \<times> nat" where
  "chunk_pages env u [] (all_chunks, total_chars) = (all_chunks, total_chars)"
| "chunk_pages env u (p # ps) (all_chunks, total_chars) =
     (let text_content = html_to_text env (pg_content p) in
      if strip text_content = [] then chunk_pages env u ps (all_chunks, total_chars)
      else chunk_pages env u ps
             (all_chunks @ page_chunks env u p (length all_chunks) (split_text env text_content),
              total_chars + length text_content))"

definition create_chunks_with_metadata :: "env \<Rightarrow> string \<Rightarrow> page list \<Rightarrow> world \<Rightarrow> chunk list outcome" where
  "create_chunks_with_metadata env u pages w =
     then_do (log_step env u ''Creating Chunks''
                [(''status'', JStr ''starting''), (''pages_count'', JNat (length pages))] w) (\<lambda>_ w1.
       case chunk_pages env u pages ([], 0) of
         (all_chunks, total_chars) \<Rightarrow>
           then_do (log_step env u ''Chunks Created''
                      [(''total_chunks'', JNat (length all_chunks)),
                       (''total_characters'', JNat total_chars), (''status'', JStr ''completed'')] w1)
             (\<lambda>_ w2. Returns all_chunks w2))"

subsection \<open>generate\_embeddings\<close>

definition zero_vector :: vec where
  "zero_vector = replicate EMBED_DIM 0"

text \<open>The fallback of one batch: one request for each chunk, a vector of zeros for a
  request that raises.\<close>

fun embed_individually :: "env \<Rightarrow> chunk list \<Rightarrow> vec list \<Rightarrow> vec list" where
  "embed_individually env [] embeddings = embeddings"
| "embed_individually env (c # cs) embeddings =
     embed_individually env cs
       (embeddings @ [case embed_content env (chunk_text c) of Inr v \<Rightarrow> v | Inl e \<Rightarrow> zero_vector])"

text \<open>The progress report, inside the outer \<^verbatim>\<open>try\<close> of the batch: when its status write
  raises, the handler of the batch runs after the vectors of the batch were appended.\<close>

definition report_progress ::
  "env \<Rightarrow> string \<Rightarrow> nat \<Rightarrow> chunk list \<Rightarrow> world \<Rightarrow> vec list \<Rightarrow> world \<times> vec list" where
  "report_progress env u n_total batch_chunks w embeddings =
     (let completed = length embeddings in
      if completed mod (20 * 2) = 0 \<or> completed = n_total then
        (case log_step env u ''Embedding Progress''
                [(''completed'', JNat completed), (''total'', JNat n_total),
                 (''status'', JStr ''in_progress'')] w of
           Raises e w' \<Rightarrow> (w', embeddings @ replicate (length batch_chunks) zero_vector)
         | Returns _ w' \<Rightarrow> (w', embeddings))
      else (w, embeddings))"

text \<open>\<^verbatim>\<open>for embedding_result in result.embeddings: embeddings.append(embedding_result.values)\<close>:
  the loop stops at the first member that raises, and the vectors appended before it stay
  in \<open>embeddings\<close>.\<close>

fun append_values :: "(exn + vec) list \<Rightarrow> vec list \<Rightarrow> exn \<times> vec list + vec list" where
  "append_values [] embeddings = Inr embeddings"
| "append_values (Inr vals # rest) embeddings = append_values rest (embeddings @ [vals])"
| "append_values (Inl e # rest) embeddings = Inl (e, embeddings)"

text \<open>The inner \<^verbatim>\<open>try\<close> of a batch: the batch call and the loop over its answer. It gives
  the list of vectors after the loop, or the exception together with the list of
  vectors at the moment it was raised.\<close>

definition batch_embed :: "env \<Rightarrow> chunk list \<Rightarrow> vec list \<Rightarrow> exn \<times> vec list + vec list" where
  "batch_embed env batch_chunks embeddings =
     (case batch_embed_contents env (map chunk_text batch_chunks) of
        Inl e \<Rightarrow> Inl (e, embeddings)
      | Inr embedding_results \<Rightarrow> append_values embedding_results embeddings)"

text \<open>One round of the loop over the batches. An AttributeError of the inner \<^verbatim>\<open>try\<close>
  starts the fallback for the whole batch, any other exception goes to the handler of
  the outer \<^verbatim>\<open>try\<close>, which appends a vector of zeros for each chunk of the batch; both
  go on from the list of vectors as the exception left it.\<close>

definition embed_batch ::
  "env \<Rightarrow> string \<Rightarrow> nat \<Rightarrow> chunk list \<Rightarrow> world \<times> vec list \<Rightarrow> world \<times> vec list" where
  "embed_batch env u n_total batch_chunks st =
     (case st of (w, embeddings) \<Rightarrow>
        (case batch_embed env batch_chunks embeddings of
           Inr embs \<Rightarrow> report_progress env u n_total batch_chunks w embs
         | Inl (AttributeError, embs) \<Rightarrow>
             report_progress env u n_total batch_chunks w (embed_individually env batch_chunks embs)
         | Inl (e, embs) \<Rightarrow> (w, embs @ replicate (length batch_chunks) zero_vector)))"

definition generate_embeddings :: "env \<Rightarrow> string \<Rightarrow> chunk list \<Rightarrow> world \<Rightarrow> vec list outcome" where
  "generate_embeddings env u chunks w =
     then_do (log_step env u ''Generating Embeddings''
                [(''status'', JStr ''starting''), (''chunks_count'', JNat (length chunks))] w) (\<lambda>_ w1.
       case fold (\<lambda>(batch_start, batch_chunks). embed_batch env u (length chunks) batch_chunks)
                 (batches_from 20 0 chunks) (w1, []) of
         (w2, embeddings) \<Rightarrow>
           then_do (log_step env u ''Embeddings Generated''
                      [(''total_embeddings'', JNat (length embeddings)),
                       (''embedding_dimension'', JNat (case embeddings of [] \<Rightarrow> 0 | e # _ \<Rightarrow> length e)),
                       (''status'', JStr ''completed'')] w2)
             (\<lambda>_ w3. Returns embeddings w3))"

subsection \<open>build\_rag\_index\<close>

definition build_rag_index :: "env \<Rightarrow> string \<Rightarrow> world \<Rightarrow> unit outcome" where
  "build_rag_index env u w =
     on_exception
       (then_do (log_step env u ''RAG Pipeline''
                   [(''status'', JStr ''starting''), (''max_pages'', JNat MAX_PAGES_FOR_TESTING),
                    (''message'', JStr (''Processing up to '' @ str_nat MAX_PAGES_FOR_TESTING @ '' pages''))] w)
          (\<lambda>_ w1.
        then_do (load_user_pages env u w1) (\<lambda>pages w2.
          if pages = [] then
            log_step env u ''RAG Pipeline''
              [(''status'', JStr ''completed''), (''message'', JStr ''No pages found'')] w2
          else
            then_do (create_chunks_with_metadata env u pages w2) (\<lambda>chunks w3.
              if chunks = [] then
                log_step env u ''RAG Pipeline''
                  [(''status'', JStr ''completed''), (''message'', JStr ''No chunks created'')] w3
              else
                then_do (generate_embeddings env u chunks w3) (\<lambda>embeddings w4.
                then_do (store_vectors_in_firestore env u chunks embeddings w4) (\<lambda>_ w5.
                  log_step env u ''RAG Pipeline''
                    [(''status'', JStr ''completed''),
                     (''summary'', JObj [(''pages_processed'', JNat (length pages)),
                                         (''chunks_created'', JNat (length chunks)),
                                         (''embeddings_generated'', JNat (length embeddings)),
                                         (''stored_successfully'', JBool True)])] w5))))))
       (\<lambda>e w6. then_do (log_step env u ''RAG Pipeline''
                          [(''status'', JStr ''error''), (''error'', JStr (str_exn e))] w6)
                  (\<lambda>_ w7. Raises e w7))"

subsection \<open>search\_similar\_chunks\<close>

text \<open>
  \<^verbatim>\<open>chunks_collection.stream()\<close> gives the documents of the subcollection in the order
  of their ids, which Firestore compares as strings.
\<close>

definition chunk_doc_id :: "nat \<Rightarrow> string" where
  "chunk_doc_id n = ''chunk_'' @ str_nat n"

definition stream_chunks :: "world \<Rightarrow> string \<Rightarrow> stored_chunk list" where
  "stream_chunks w u = map snd (sort_key (\<lambda>(n, c). chunk_doc_id n) (rag_chunks w u))"

definition dot_product :: "vec \<Rightarrow> vec \<Rightarrow> real" where
  "dot_product q c = sum_list (map (\<lambda>(a, b). a * b) (zip q c))"

text \<open>\<^verbatim>\<open>sum(a * a for a in v) ** 0.5\<close>\<close>

definition norm_of :: "vec \<Rightarrow> real" where
  "norm_of v = sqrt (sum_list (map (\<lambda>a. a * a) v))"

fun score_chunks ::
  "vec \<Rightarrow> stored_chunk list \<Rightarrow> (real \<times> stored_chunk) list \<Rightarrow> (real \<times> stored_chunk) list" where
  "score_chunks query_embedding [] similarities = similarities"
| "score_chunks query_embedding (chunk # chunks) similarities =
     (let chunk_embedding = embedding chunk in
      if chunk_embedding = [] then score_chunks query_embedding chunks similarities
      else
        (let dp = dot_product query_embedding chunk_embedding;
             norm_a = norm_of query_embedding;
             norm_b = norm_of chunk_embedding
         in if norm_a > 0 \<and> norm_b > 0
            then score_chunks query_embedding chunks (similarities @ [(dp / (norm_a * norm_b), chunk)])
            else score_chunks query_embedding chunks similarities))"

text \<open>\<^verbatim>\<open>list.sort(key=..., reverse=True)\<close>: the list is reversed, sorted by a stable
  ascending sort, and reversed again.\<close>

definition sort_reverse :: "('a \<Rightarrow> 'k::linorder) \<Rightarrow> 'a list \<Rightarrow> 'a list" where
  "sort_reverse key xs = rev (sort_key key (rev xs))"

record search_result =
  sr_score :: real
  sr_chunk :: stored_chunk
  sr_metadata :: chunk_meta

definition rank_chunks :: "vec \<Rightarrow> stored_chunk list \<Rightarrow> nat \<Rightarrow> search_result list" where
  "rank_chunks query_embedding chunks top_k =
     map (\<lambda>(sim, chunk). \<lparr>sr_score = sim, sr_chunk = chunk, sr_metadata = sc_metadata chunk\<rparr>)
       (take top_k (sort_reverse fst (score_chunks query_embedding chunks [])))"

text \<open>Every exception inside is caught and turned into the empty list.\<close>

definition search_similar_chunks :: "env \<Rightarrow> string \<Rightarrow> world \<Rightarrow> string \<Rightarrow> nat \<Rightarrow> search_result list" where
  "search_similar_chunks env u w query top_k =
     (case embed_content env query of
        Inl e \<Rightarrow> []
      | Inr query_embedding \<Rightarrow>
          (case fs_doc_get env of
             Some e \<Rightarrow> []
           | None \<Rightarrow>
               if rag_docs w u = None then []
               else (case fs_stream env of
                       Some e \<Rightarrow> []
                     | None \<Rightarrow> rank_chunks query_embedding (stream_chunks w u) top_k)))"

subsection \<open>rag\_chat\<close>

record match_out =
  mo_page_name :: string
  mo_chunk_index :: nat
  mo_score :: real
  mo_text_preview :: string

text \<open>The dictionary that \<^verbatim>\<open>rag_chat\<close> returns; a key that the dictionary does not have
  is \<open>None\<close>.\<close>

record rag_answer =
  ra_answer :: string
  ra_matches :: "match_out list"
  ra_context_used :: "nat option"
  ra_message :: "string option"
  ra_error :: "string option"

definition context_block :: "env \<Rightarrow> nat \<times> search_result \<Rightarrow> string" where
  "context_block env im =
     (case im of (i, m) \<Rightarrow>
        ''['' @ str_nat i @ ''] PAGE: '' @ page_name (sr_metadata m) @ '' | ''
        @ ''chunk: '' @ str_nat (chunk_index (sr_metadata m)) @ '' | score: ''
        @ format_score env (sr_score m) @ [CHR 0x0A] @ sc_text (sr_chunk m))"

definition rag_prompt :: "string \<Rightarrow> string \<Rightarrow> string" where
  "rag_prompt question context =
     ''You are a helpful assistant that answers questions based on the user's personal knowledge base. ''
     @ ''Use ONLY the provided context from their notes to answer the question. ''
     @ ''If the answer is not in the context, say 'I couldn't find that information in your notes.' ''
     @ ''Cite the relevant sections using [1], [2], etc.'' @ [CHR 0x0A, CHR 0x0A]
     @ ''QUESTION: '' @ question @ [CHR 0x0A, CHR 0x0A]
     @ ''CONTEXT FROM YOUR NOTES:'' @ [CHR 0x0A] @ context @ [CHR 0x0A, CHR 0x0A]
     @ ''ANSWER:''"

definition match_summary :: "search_result \<Rightarrow> match_out" where
  "match_summary m =
     \<lparr>mo_page_name = page_name (sr_metadata m),
      mo_chunk_index = chunk_index (sr_metadata m),
      mo_score = sr_score m,
      mo_text_preview = (if length (sc_text (sr_chunk m)) > 200
                         then take 200 (sc_text (sr_chunk m)) @ ''...''
                         else sc_text (sr_chunk m))\<rparr>"

definition rag_chat :: "env \<Rightarrow> string \<Rightarrow> world \<Rightarrow> string \<Rightarrow> rag_answer" where
  "rag_chat env u w question =
     (let matches = search_similar_chunks env u w question TOP_K in
      if matches = [] then
        \<lparr>ra_answer = ''NOT_FOUND'', ra_matches = [], ra_context_used = None,
         ra_message = Some ''No relevant content found in your knowledge base.'',
         ra_error = None\<rparr>
      else
        (let context = join [CHR 0x0A, CHR 0x0A] (map (context_block env) (enumerate 1 matches));
             prompt = rag_prompt question context
         in case generate_content env prompt of
              Inl e \<Rightarrow>
                \<lparr>ra_answer = ''Sorry, there was an error processing your question.'',
                 ra_matches = [], ra_context_used = None, ra_message = None,
                 ra_error = Some (str_exn e)\<rparr>
            | Inr response_text \<Rightarrow>
                \<lparr>ra_answer = (if strip response_text = []
                              then ''Sorry, I couldn't generate a response.''
                              else strip response_text),
                 ra_matches = map match_summary matches,
                 ra_context_used = Some (length matches), ra_message = None, ra_error = None\<rparr>))"

subsection \<open>Reading an outcome\<close>

text \<open>The value that a call returned, if it returned; and the relation between two states
  that hold the same Firestore index (the documents of \<^verbatim>\<open>rag\<close> and all chunk records).\<close>

fun returned :: "'a outcome \<Rightarrow> 'a option" where
  "returned (Raises e w) = None"
| "returned (Returns x w) = Some x"

definition same_index :: "world \<Rightarrow> world \<Rightarrow> bool" where
  "same_index w w' = (rag_docs w' = rag_docs w \<and> rag_chunks w' = rag_chunks w)"

subsection \<open>Sample data\<close>

text \<open>An environment in which no call raises: the user has no pages, the model has no
  batch method (\<^verbatim>\<open>batch_embed_contents\<close> raises AttributeError, so every batch takes the
  fallback of one request for each chunk) and every text gets the vector \<open>[1, 0]\<close>.\<close>

definition ok_env :: env where
  "ok_env =
     \<lparr>rtdb_set = (\<lambda>step dets. None), rtdb_rag_set = None, rtdb_page_index = Inr [],
      fs_page_get = (\<lambda>pid. Inr None), fs_doc_get = None, fs_doc_delete = None,
      fs_doc_set = None, fs_batch_commit = (\<lambda>n. None), fs_stream = None,
      batch_embed_contents = (\<lambda>texts. Inl AttributeError),
      embed_content = (\<lambda>t. Inr [1, 0]),
      generate_content = (\<lambda>prompt. Inr ''An answer.''),
      soup_get_text = (\<lambda>html. html), split_text = (\<lambda>t. [t]),
      uuid4 = (\<lambda>n. ''uuid-'' @ str_nat n), format_score = (\<lambda>x. ''1.0000'')\<rparr>"

definition empty_world :: world where
  "empty_world =
     \<lparr>rag_docs = (\<lambda>u. None), rag_chunks = (\<lambda>u. []), rtdb_rag = (\<lambda>u. None),
      current_step = (\<lambda>u. None)\<rparr>"

definition sample_chunk :: "string \<Rightarrow> nat \<Rightarrow> string \<Rightarrow> chunk" where
  "sample_chunk pid i t =
     \<lparr>chunk_id = ''c'', chunk_text = t,
      metadata = \<lparr>page_id = pid, page_name = pid, chunk_index = i, total_chunks = 3,
                  char_count = length t, user_id = ''alice''\<rparr>\<rparr>"


definition flaky_status_env :: env where
  "flaky_status_env =
     ok_env\<lparr>rtdb_set := (\<lambda>step dets. if step = ''Embedding Progress''
                                       then Some (Error ''rtdb unavailable'') else None)\<rparr>"


definition dead_sink_env :: env where
  "dead_sink_env = ok_env\<lparr>rtdb_set := (\<lambda>step dets. Some (Error ''rtdb unavailable''))\<rparr>"

definition failing_delete_env :: env where
  "failing_delete_env = ok_env\<lparr>fs_doc_delete := Some (Error ''permission denied'')\<rparr>"

text \<open>A user with one page whose content is blank, and one whose content is a word.\<close>

definition sample_meta :: page_meta where
  "sample_meta = \<lparr>pm_name = Some ''Notes'', pm_notebookId = ''n1'', pm_sectionId = ''s1'', pm_topicId = ''t1''\<rparr>"

definition blank_page_env :: env where
  "blank_page_env =
     ok_env\<lparr>rtdb_page_index := Inr [(''p1'', sample_meta)],
            fs_page_get := (\<lambda>pid. Inr (Some \<lparr>pd_name = Some ''Notes'', pd_content = ''  '', pd_owner = ''alice''\<rparr>))\<rparr>"

definition one_page_env :: env where
  "one_page_env =
     ok_env\<lparr>rtdb_page_index := Inr [(''p1'', sample_meta)],
            fs_page_get := (\<lambda>pid. Inr (Some \<lparr>pd_name = Some ''Notes'', pd_content = ''hello'', pd_owner = ''alice''\<rparr>))\<rparr>"

text \<open>A state in which the user already has an index of two chunks.\<close>

definition old_chunk :: "nat \<Rightarrow> stored_chunk" where
  "old_chunk i =
     \<lparr>sc_id = ''old'', sc_text = ''old text'',
      sc_metadata = \<lparr>page_id = ''q'', page_name = ''q'', chunk_index = i, total_chunks = 2,
                     char_count = 8, user_id = ''alice''\<rparr>,
      embedding = [0, 1], embedding_dimension = 2\<rparr>"

definition old_world :: world where
  "old_world =
     empty_world
       \<lparr>rag_docs := (\<lambda>u. if u = ''alice''
                          then Some \<lparr>rd_user_id = ''alice'',
                                     rd_metadata = \<lparr>im_total_chunks = 2, im_total_pages = 1,
                                        im_embedding_model = EMBED_MODEL, im_chunk_size = CHUNK_SIZE,
                                        im_chunk_overlap = CHUNK_OVERLAP\<rparr>\<rparr>
                          else None),
        rag_chunks := (\<lambda>u. if u = ''alice'' then [(0, old_chunk 0), (1, old_chunk 1)] else [])\<rparr>"

text \<open>Stored indexes for the retriever. In \<open>tie_world\<close> page A has the chunks 0 and 1
  and page B the chunk 0, stored as \<^verbatim>\<open>chunk_0\<close>, \<^verbatim>\<open>chunk_1\<close> and \<^verbatim>\<open>chunk_2\<close>, the way
  \<open>store_vectors_in_firestore\<close> numbers them; the last two have the same vector.\<close>

definition stored :: "string \<Rightarrow> nat \<Rightarrow> vec \<Rightarrow> stored_chunk" where
  "stored pid i v =
     \<lparr>sc_id = ''c'', sc_text = ''some text'',
      sc_metadata = \<lparr>page_id = pid, page_name = pid, chunk_index = i, total_chunks = 2,
                     char_count = 9, user_id = ''alice''\<rparr>,
      embedding = v, embedding_dimension = length v\<rparr>"

definition indexed_world :: "(nat \<times> stored_chunk) list \<Rightarrow> world" where
  "indexed_world cs =
     empty_world
       \<lparr>rag_docs := (\<lambda>u. if u = ''alice''
                          then Some \<lparr>rd_user_id = ''alice'',
                                     rd_metadata = \<lparr>im_total_chunks = length cs, im_total_pages = 2,
                                        im_embedding_model = EMBED_MODEL, im_chunk_size = CHUNK_SIZE,
                                        im_chunk_overlap = CHUNK_OVERLAP\<rparr>\<rparr>
                          else None),
        rag_chunks := (\<lambda>u. if u = ''alice'' then cs else [])\<rparr>"

definition tie_world :: world where
  "tie_world = indexed_world [(0, stored ''A'' 0 [0, 1]), (1, stored ''A'' 1 [1, 0]), (2, stored ''B'' 0 [1, 0])]"

definition zero_world :: world where
  "zero_world = indexed_world [(0, stored ''A'' 0 [0, 0]), (1, stored ''A'' 1 [1, 0])]"

section \<open>Lemmas\<close>

subsection \<open>Sequencing and handlers\<close>

lemma then_do_simps [simp]:
  "then_do (Raises e w) f = Raises e w"
  "then_do (Returns x w) f = f x w"
  by (simp_all add: then_do_def)

lemma on_exception_simps [simp]:
  "on_exception (Raises e w) h = h e w"
  "on_exception (Returns x w) h = Returns x w"
  by (simp_all add: on_exception_def)

lemma then_do_Returns_iff:
  "then_do m f = Returns y w' \<longleftrightarrow> (\<exists>x w1. m = Returns x w1 \<and> f x w1 = Returns y w')"
  by (cases m) auto

lemma on_exception_reraise_Returns:
  "on_exception m (\<lambda>e w. then_do (g e w) (\<lambda>_ w1. Raises e w1)) = Returns y w' \<longleftrightarrow> m = Returns y w'"
  by (cases m) (auto simp: then_do_Returns_iff)

lemma returns_iff: "returns m \<longleftrightarrow> (\<exists>x w. m = Returns x w)"
  by (cases m) auto

lemma returns_reraise [simp]: "returns (then_do m (\<lambda>_ w. Raises e w)) = False"
  by (cases m) auto

lemma returns_unit: "returns m \<Longrightarrow> m = Returns () (final_world m)"
  by (cases m) auto

lemma batches_from_single:
  "0 < bs \<Longrightarrow> xs \<noteq> [] \<Longrightarrow> length xs \<le> bs \<Longrightarrow> batches_from bs 0 xs = [(0, xs)]"
  by (subst batches_from.simps, subst batches_from.simps) simp

subsection \<open>What leaves the stored index alone\<close>

lemma same_index_refl [simp]: "same_index w w"
  by (simp add: same_index_def)

lemma same_index_trans: "same_index w w1 \<Longrightarrow> same_index w1 w2 \<Longrightarrow> same_index w w2"
  by (simp add: same_index_def)

lemma then_do_frame:
  assumes "same_index w (final_world m)"
    and "\<And>x w1. same_index w1 (final_world (f x w1))"
  shows "same_index w (final_world (then_do m f))"
proof (cases m)
  case (Raises e w1)
  with assms(1) show ?thesis by simp
next
  case (Returns x w1)
  with assms(1) assms(2) [of w1 x] show ?thesis
    by (simp add: same_index_trans)
qed

lemma on_exception_frame:
  assumes "same_index w (final_world m)"
    and "\<And>e w1. same_index w1 (final_world (h e w1))"
  shows "same_index w (final_world (on_exception m h))"
proof (cases m)
  case (Raises e w1)
  with assms(1) assms(2) [of w1 e] show ?thesis
    by (simp add: same_index_trans)
next
  case (Returns x w1)
  with assms(1) show ?thesis by simp
qed

lemma log_step_frame: "same_index w (final_world (log_step env u step dets w))"
  by (simp add: log_step_def same_index_def split: option.splits)

lemma reraise_frame:
  "same_index w (final_world (then_do (log_step env u step dets w) (\<lambda>_ w'. Raises e w')))"
  by (intro then_do_frame log_step_frame) simp

lemma rag_status_set_frame: "same_index w (final_world (rag_status_set env u s w))"
  by (simp add: rag_status_set_def same_index_def split: option.splits)

lemma Returns_same_index:
  "same_index w (final_world m) \<Longrightarrow> m = Returns x w' \<Longrightarrow> same_index w w'"
  by simp

lemma load_user_pages_frame: "same_index w (final_world (load_user_pages env u w))"
  unfolding load_user_pages_def
  by (intro then_do_frame on_exception_frame log_step_frame reraise_frame)
     (auto split: sum.splits prod.splits intro!: then_do_frame log_step_frame)

lemma create_chunks_frame: "same_index w (final_world (create_chunks_with_metadata env u pages w))"
  unfolding create_chunks_with_metadata_def
  by (intro then_do_frame log_step_frame)
     (auto split: prod.splits intro!: then_do_frame log_step_frame)

lemma report_progress_frame:
  "same_index w (fst (report_progress env u n batch_chunks w embeddings))"
  by (simp add: report_progress_def Let_def log_step_def same_index_def split: option.splits)

lemma embed_batch_frame: "same_index w (fst (embed_batch env u n batch_chunks (w, embeddings)))"
  by (auto simp: embed_batch_def report_progress_frame split: sum.splits prod.splits exn.splits)

lemma embed_fold_frame:
  "same_index w (fst (fold (\<lambda>(batch_start, batch_chunks). embed_batch env u n batch_chunks) bs (w, embeddings)))"
proof (induction bs arbitrary: w embeddings)
  case Nil
  show ?case by simp
next
  case (Cons b bs)
  obtain s cs where b: "b = (s, cs)" by (cases b)
  obtain w1 e1 where st: "embed_batch env u n cs (w, embeddings) = (w1, e1)"
    by (cases "embed_batch env u n cs (w, embeddings)")
  have "same_index w w1"
    using embed_batch_frame [of w env u n cs embeddings] st by simp
  with Cons.IH [of w1 e1] show ?case
    by (simp add: b st same_index_trans)
qed

lemma generate_embeddings_frame: "same_index w (final_world (generate_embeddings env u chunks w))"
proof -
  have "\<And>w1. same_index w1
          (final_world (case fold (\<lambda>(batch_start, batch_chunks). embed_batch env u (length chunks) batch_chunks)
                 (batches_from 20 0 chunks) (w1, []) of
         (w2, embeddings) \<Rightarrow>
           then_do (log_step env u ''Embeddings Generated''
                      [(''total_embeddings'', JNat (length embeddings)),
                       (''embedding_dimension'', JNat (case embeddings of [] \<Rightarrow> 0 | e # _ \<Rightarrow> length e)),
                       (''status'', JStr ''completed'')] w2)
             (\<lambda>_ w3. Returns embeddings w3)))"
    subgoal for w1
      using embed_fold_frame [of w1 env u "length chunks" "batches_from 20 0 chunks" "[]"]
      by (auto split: prod.splits intro!: then_do_frame
               intro: same_index_trans [OF _ log_step_frame])
    done
  then show ?thesis
    unfolding generate_embeddings_def
    by (intro then_do_frame log_step_frame)
qed

lemma log_step_Returns_same: "log_step env u step dets w = Returns x w' \<Longrightarrow> same_index w w'"
  using log_step_frame [of w env u step dets] by simp

lemma load_Returns_same: "load_user_pages env u w = Returns x w' \<Longrightarrow> same_index w w'"
  using load_user_pages_frame [of w env u] by simp

lemma create_Returns_same: "create_chunks_with_metadata env u pages w = Returns x w' \<Longrightarrow> same_index w w'"
  using create_chunks_frame [of w env u pages] by simp

lemma generate_Returns_same: "generate_embeddings env u chunks w = Returns x w' \<Longrightarrow> same_index w w'"
  using generate_embeddings_frame [of w env u chunks] by simp

subsection \<open>The embedding loop\<close>

lemma embed_individually_eq:
  "embed_individually env cs embeddings =
     embeddings @ map (\<lambda>c. case embed_content env (chunk_text c) of Inr v \<Rightarrow> v | Inl e \<Rightarrow> zero_vector) cs"
  by (induction cs arbitrary: embeddings) simp_all


text \<open>When every status write succeeds and the batch call, where it answers, gives one
  member for each text and the values of each can be read, the loop returns one vector
  for each chunk.\<close>

lemma append_values_all_answer:
  "\<forall>r\<in>set rs. \<not> isl r \<Longrightarrow> append_values rs embeddings = Inr (embeddings @ map projr rs)"
proof (induction rs arbitrary: embeddings)
  case Nil
  show ?case by simp
next
  case (Cons r rs)
  then show ?case by (cases r) simp_all
qed

lemma append_values_extends:
  "append_values rs embeddings = Inl (e, embs) \<Longrightarrow> \<exists>part. embs = embeddings @ part"
proof (induction rs arbitrary: embeddings)
  case Nil
  then show ?case by simp
next
  case (Cons r rs)
  show ?case
  proof (cases r)
    case (Inl e')
    with Cons.prems show ?thesis by simp
  next
    case (Inr v)
    with Cons.prems have "append_values rs (embeddings @ [v]) = Inl (e, embs)" by simp
    from Cons.IH [OF this] show ?thesis by auto
  qed
qed

lemma batch_embed_call_raises:
  "batch_embed_contents env (map chunk_text batch_chunks) = Inl e
     \<Longrightarrow> batch_embed env batch_chunks embeddings = Inl (e, embeddings)"
  by (simp add: batch_embed_def)

lemma embed_batch_length:
  assumes "\<forall>step dets. rtdb_set env step dets = None"
    and "\<forall>ts rs. batch_embed_contents env ts = Inr rs
           \<longrightarrow> length rs = length ts \<and> (\<forall>r\<in>set rs. \<not> isl r)"
  shows "length (snd (embed_batch env u n cs (w, embs))) = length embs + length cs"
  using assms
  by (auto simp: embed_batch_def batch_embed_def report_progress_def log_step_def
                 embed_individually_eq append_values_all_answer Let_def
           split: sum.splits exn.splits)

lemma embed_fold_length:
  assumes "\<forall>step dets. rtdb_set env step dets = None"
    and "\<forall>ts rs. batch_embed_contents env ts = Inr rs
           \<longrightarrow> length rs = length ts \<and> (\<forall>r\<in>set rs. \<not> isl r)"
    and "0 < bs"
  shows "length (snd (fold (\<lambda>(batch_start, batch_chunks). embed_batch env u n batch_chunks)
                        (batches_from bs s xs) (w, embs)))
           = length embs + (length xs - s)"
  using assms(3)
proof (induction bs s xs arbitrary: w embs rule: batches_from.induct)
  case (1 bs' s xs)
  show ?case
  proof (cases "0 < bs' \<and> s < length xs")
    case False
    with "1.prems" show ?thesis
      by (subst batches_from.simps) auto
  next
    case True
    let ?slice = "take (min (s + bs') (length xs) - s) (drop s xs)"
    obtain w1 e1 where st: "embed_batch env u n ?slice (w, embs) = (w1, e1)"
      by (cases "embed_batch env u n ?slice (w, embs)")
    have l1: "length e1 = length embs + (min (s + bs') (length xs) - s)"
      using embed_batch_length [OF assms(1,2), of u n ?slice w embs] st by simp
    have ih: "length (snd (fold (\<lambda>(batch_start, batch_chunks). embed_batch env u n batch_chunks)
                        (batches_from bs' (s + bs') xs) (w1, e1)))
           = length e1 + (length xs - (s + bs'))"
      using True by (intro "1.IH") simp_all
    have unf: "batches_from bs' s xs = (s, ?slice) # batches_from bs' (s + bs') xs"
      by (subst batches_from.simps) (simp only: True if_True simp_thms)
    have "fold (\<lambda>(batch_start, batch_chunks). embed_batch env u n batch_chunks)
               (batches_from bs' s xs) (w, embs)
          = fold (\<lambda>(batch_start, batch_chunks). embed_batch env u n batch_chunks)
               (batches_from bs' (s + bs') xs) (w1, e1)"
      by (simp only: unf fold.simps o_apply prod.case st)
    moreover have "length e1 + (length xs - (s + bs')) = length embs + (length xs - s)"
      using True l1 by (simp add: min_def)
    ultimately show ?thesis
      using ih by simp
  qed
qed

lemma generate_embeddings_one_per_chunk:
  assumes "\<forall>step dets. rtdb_set env step dets = None"
    and "\<forall>ts rs. batch_embed_contents env ts = Inr rs
           \<longrightarrow> length rs = length ts \<and> (\<forall>r\<in>set rs. \<not> isl r)"
  shows "\<exists>embeddings w'. generate_embeddings env u chunks w = Returns embeddings w'
           \<and> length embeddings = length chunks"
proof -
  obtain w2 embs where f:
    "fold (\<lambda>(batch_start, batch_chunks). embed_batch env u (length chunks) batch_chunks)
          (batches_from 20 0 chunks)
          (w\<lparr>current_step := (current_step w)(u \<mapsto>
              \<lparr>sm_step = ''Generating Embeddings'',
               sm_details = [(''status'', JStr ''starting''), (''chunks_count'', JNat (length chunks))]\<rparr>)\<rparr>, [])
       = (w2, embs)"
    by (cases "fold (\<lambda>(batch_start, batch_chunks). embed_batch env u (length chunks) batch_chunks)
          (batches_from 20 0 chunks)
          (w\<lparr>current_step := (current_step w)(u \<mapsto>
              \<lparr>sm_step = ''Generating Embeddings'',
               sm_details = [(''status'', JStr ''starting''), (''chunks_count'', JNat (length chunks))]\<rparr>)\<rparr>, [])")
  have "length (snd (fold (\<lambda>(batch_start, batch_chunks). embed_batch env u (length chunks) batch_chunks)
          (batches_from 20 0 chunks)
          (w\<lparr>current_step := (current_step w)(u \<mapsto>
              \<lparr>sm_step = ''Generating Embeddings'',
               sm_details = [(''status'', JStr ''starting''), (''chunks_count'', JNat (length chunks))]\<rparr>)\<rparr>, [])))
          = length ([] :: vec list) + (length chunks - 0)"
    by (rule embed_fold_length [OF assms]) simp
  then have "length embs = length chunks"
    unfolding f by simp
  then show ?thesis
    using assms(1) f by (simp add: generate_embeddings_def log_step_def)
qed

subsection \<open>The batched write\<close>

lemma map_of_fold_update:
  "distinct (map fst sets) \<Longrightarrow>
     map_of (fold (\<lambda>(k, v). AList.update k v) sets al) = map_of al ++ map_of sets"
proof (induction sets arbitrary: al)
  case Nil
  show ?case by simp
next
  case (Cons p sets)
  obtain k v where p: "p = (k, v)" by (cases p)
  from Cons.prems have "k \<notin> dom (map_of sets)"
    by (auto simp: p dom_map_of_conv_image_fst)
  moreover from Cons.prems have "distinct (map fst sets)" by simp
  ultimately show ?case
    using Cons.IH [of "AList.update k v al"]
    by (auto simp: p update_conv' fun_eq_iff map_add_def domIff split: option.splits)
qed

lemma map_of_enumerate:
  "map_of (enumerate s xs) i = (if s \<le> i \<and> i < s + length xs then Some (xs ! (i - s)) else None)"
proof (induction xs arbitrary: s)
  case Nil
  show ?case by simp
next
  case (Cons x xs)
  show ?case
    using Cons.IH [of "Suc s"] by (auto simp: Suc_diff_le)
qed

lemma batch_commit_Returns:
  assumes "batch_commit env u s (enumerate s xs) w = Returns x w'"
  shows "rag_docs w' = rag_docs w"
    and "map_of (rag_chunks w' u) i =
           (if s \<le> i \<and> i < s + length xs then Some (xs ! (i - s)) else map_of (rag_chunks w u) i)"
proof -
  from assms have w': "w' = w\<lparr>rag_chunks := (rag_chunks w)
          (u := fold (\<lambda>(k, v). AList.update k v) (enumerate s xs) (rag_chunks w u))\<rparr>"
    by (auto simp: batch_commit_def split: option.splits)
  show "rag_docs w' = rag_docs w" by (simp add: w')
  have "distinct (map fst (enumerate s xs))" by simp
  then show "map_of (rag_chunks w' u) i =
           (if s \<le> i \<and> i < s + length xs then Some (xs ! (i - s)) else map_of (rag_chunks w u) i)"
    by (simp add: w' map_of_fold_update map_add_def map_of_enumerate)
qed

lemma store_batches_Returns:
  assumes "store_batches env u (batches_from bs s xs) w = Returns x w'"
  shows "rag_docs w' = rag_docs w
       \<and> (\<forall>i. map_of (rag_chunks w' u) i =
            (if 0 < bs \<and> s \<le> i \<and> i < length xs then Some (xs ! i) else map_of (rag_chunks w u) i))"
  using assms
proof (induction bs s xs arbitrary: w rule: batches_from.induct)
  case (1 bs s xs)
  show ?case
  proof (cases "0 < bs \<and> s < length xs")
    case False
    with "1.prems" show ?thesis
      by (subst (asm) batches_from.simps) auto
  next
    case True
    let ?slice = "take (min (s + bs) (length xs) - s) (drop s xs)"
    from "1.prems" True obtain w1 where
      c: "batch_commit env u s (enumerate s ?slice) w = Returns () w1" and
      r: "store_batches env u (batches_from bs (s + bs) xs) w1 = Returns x w'"
      by (subst (asm) batches_from.simps) (auto split: outcome.splits)
    note ih = "1.IH" [OF True r]
    note b = batch_commit_Returns [OF c]
    have len: "length ?slice = min (s + bs) (length xs) - s" by simp
    have nth: "\<And>i. s \<le> i \<Longrightarrow> i < s + length ?slice \<Longrightarrow> ?slice ! (i - s) = xs ! i"
      by (simp add: min_def split: if_splits)
    show ?thesis
    proof (intro conjI allI)
      show "rag_docs w' = rag_docs w" using ih b(1) by simp
    next
      fix i
      show "map_of (rag_chunks w' u) i =
            (if 0 < bs \<and> s \<le> i \<and> i < length xs then Some (xs ! i) else map_of (rag_chunks w u) i)"
      proof (cases "s + bs \<le> i \<and> i < length xs")
        case True
        with ih \<open>0 < bs \<and> s < length xs\<close> show ?thesis by simp
      next
        case False
        then have "map_of (rag_chunks w' u) i = map_of (rag_chunks w1 u) i"
          using ih by auto
        also have "\<dots> = (if s \<le> i \<and> i < s + length ?slice then Some (?slice ! (i - s))
                          else map_of (rag_chunks w u) i)"
          by (rule b(2))
        also have "\<dots> = (if 0 < bs \<and> s \<le> i \<and> i < length xs then Some (xs ! i)
                          else map_of (rag_chunks w u) i)"
          using False True nth [of i] by (auto simp: min_def split: if_splits)
        finally show ?thesis .
      qed
    qed
  qed
qed

lemma write_index_Returns:
  assumes "write_index env u chunks embeddings w = Returns x w'"
  shows "length chunks \<le> length embeddings
       \<and> (\<exists>d. rag_docs w' u = Some d \<and> im_total_chunks (rd_metadata d) = length chunks)
       \<and> (\<forall>i<length chunks. map_of (rag_chunks w' u) i = Some (with_vector (chunks ! i) (embeddings ! i)))"
proof -
  let ?cwv = "map (\<lambda>i. with_vector (chunks ! i) (embeddings ! i)) [0..<length chunks]"
  from assms have len: "length chunks \<le> length embeddings"
    and cwv: "chunks_with_vectors chunks embeddings = Inr ?cwv"
    by (auto simp: write_index_def chunks_with_vectors_def split: if_splits)
  from assms cwv have "\<exists>d w1 w2 s w3 step dets.
      im_total_chunks (rd_metadata d) = length chunks
    \<and> doc_set env u d w = Returns () w1
    \<and> store_batches env u (batches_from 50 0 ?cwv) w1 = Returns () w2
    \<and> rag_status_set env u s w2 = Returns () w3
    \<and> log_step env u step dets w3 = Returns x w'"
    by (simp add: write_index_def Let_def then_do_Returns_iff) force
  then obtain d w1 w2 s w3 step dets where
    d: "im_total_chunks (rd_metadata d) = length chunks" and
    s1: "doc_set env u d w = Returns () w1" and
    s2: "store_batches env u (batches_from 50 0 ?cwv) w1 = Returns () w2" and
    t3: "rag_status_set env u s w2 = Returns () w3" and
    t4: "log_step env u step dets w3 = Returns x w'"
    by blast
  have s3: "same_index w2 w3"
    using rag_status_set_frame [of w2 env u s] t3 by simp
  have s4: "same_index w3 w'"
    using log_step_frame [of w3 env u step dets] t4 by simp
  from s1 have w1: "rag_docs w1 u = Some d"
    by (auto simp: doc_set_def split: option.splits)
  note b = store_batches_Returns [OF s2]
  from b w1 s3 s4 have "rag_docs w' u = Some d"
    by (simp add: same_index_def)
  moreover have "\<forall>i<length chunks. map_of (rag_chunks w' u) i = Some (with_vector (chunks ! i) (embeddings ! i))"
    using b s3 s4 by (simp add: same_index_def)
  ultimately show ?thesis using len d by blast
qed

lemma store_Returns:
  assumes "store_vectors_in_firestore env u chunks embeddings w = Returns x w'"
  shows "length chunks \<le> length embeddings
       \<and> (\<exists>d. rag_docs w' u = Some d \<and> im_total_chunks (rd_metadata d) = length chunks)
       \<and> (\<forall>i<length chunks. map_of (rag_chunks w' u) i = Some (with_vector (chunks ! i) (embeddings ! i)))"
proof -
  from assms obtain w2 where "write_index env u chunks embeddings w2 = Returns x w'"
    by (auto simp: store_vectors_in_firestore_def then_do_Returns_iff on_exception_reraise_Returns)
  then show ?thesis by (rule write_index_Returns)
qed

lemma store_batches_ok:
  "(\<And>n. fs_batch_commit env n = None) \<Longrightarrow> returns (store_batches env u bs w)"
proof (induction bs arbitrary: w)
  case Nil
  show ?case by simp
next
  case (Cons b bs)
  obtain s cs where b: "b = (s, cs)" by (cases b)
  show ?case
    using Cons.IH Cons.prems by (simp add: b batch_commit_def)
qed

lemma write_index_ok:
  assumes "\<And>step dets. rtdb_set env step dets = None"
    and "fs_doc_set env = None" and "\<And>n. fs_batch_commit env n = None"
    and "rtdb_rag_set env = None" and "length chunks \<le> length embeddings"
  shows "returns (write_index env u chunks embeddings w)"
proof -
  have "\<And>bs w1. \<exists>w2. store_batches env u bs w1 = Returns () w2"
    using store_batches_ok [OF assms(3)] by (auto simp: returns_iff)
  then obtain w2 where
    "store_batches env u (batches_from 50 0 (map (\<lambda>i. with_vector (chunks ! i) (embeddings ! i)) [0..<length chunks]))
       (w\<lparr>rag_docs := (rag_docs w)(u \<mapsto>
            \<lparr>rd_user_id = u,
             rd_metadata = \<lparr>im_total_chunks = length chunks,
                im_total_pages = length (remdups (map (\<lambda>c. page_id (metadata c)) chunks)),
                im_embedding_model = EMBED_MODEL, im_chunk_size = CHUNK_SIZE,
                im_chunk_overlap = CHUNK_OVERLAP\<rparr>\<rparr>)\<rparr>) = Returns () w2"
    by blast
  then show ?thesis
    using assms(1,2,4,5)
    by (simp add: write_index_def chunks_with_vectors_def doc_set_def rag_status_set_def log_step_def Let_def)
qed

subsection \<open>Ranking\<close>

lemma score_chunks_eq:
  "score_chunks q cs acc =
     acc @ map (\<lambda>c. (dot_product q (embedding c) / (norm_of q * norm_of (embedding c)), c))
             (filter (\<lambda>c. embedding c \<noteq> [] \<and> norm_of q > 0 \<and> norm_of (embedding c) > 0) cs)"
  by (induction cs arbitrary: acc) (simp_all add: Let_def)

lemma norm_of_zero: "\<forall>x\<in>set v. x = 0 \<Longrightarrow> norm_of v = 0"
  by (induction v) (simp_all add: norm_of_def)

lemma set_sort_reverse [simp]: "set (sort_reverse key xs) = set xs"
  by (simp add: sort_reverse_def)

lemma rank_chunks_positive_norm:
  "r \<in> set (rank_chunks q cs top_k) \<Longrightarrow> sr_chunk r \<in> set cs \<and> 0 < norm_of (embedding (sr_chunk r))"
  by (auto simp: rank_chunks_def score_chunks_eq dest!: in_set_takeD)

lemma sort_reverse_stable:
  "filter (\<lambda>x. key x = k) (sort_reverse key xs) = filter (\<lambda>x. key x = k) xs"
proof -
  have "rev (filter (\<lambda>x. key x = k) (sort_reverse key xs)) = rev (filter (\<lambda>x. key x = k) xs)"
    by (simp add: sort_reverse_def rev_filter sort_key_stable)
  then show ?thesis by simp
qed

lemma sort_reverse_descending: "sorted_wrt (\<ge>) (map key (sort_reverse key xs))"
proof -
  have "sorted (rev (map key (sort_reverse key xs)))"
    by (simp add: sort_reverse_def rev_map)
  then show ?thesis by (simp add: sorted_wrt_rev)
qed

lemma rank_chunks_scores:
  "map sr_score (rank_chunks q cs k) = take k (map fst (sort_reverse fst (score_chunks q cs [])))"
  by (simp add: rank_chunks_def take_map case_prod_beta comp_def)

lemma rank_chunks_ties:
  "map sr_chunk (filter (\<lambda>r. sr_score r = s) (rank_chunks q cs k))
     = map snd (filter (\<lambda>p. fst p = s) (take k (sort_reverse fst (score_chunks q cs []))))"
  by (simp add: rank_chunks_def filter_map comp_def case_prod_beta)

subsection \<open>The sample data, evaluated\<close>

lemma build_one_page:
  "returns (build_rag_index one_page_env ''alice'' empty_world)"
  by (simp add: build_rag_index_def load_user_pages_def create_chunks_with_metadata_def
        one_page_env_def log_step_def MAX_PAGES_FOR_TESTING_def batches_from_single
        strip_def py_isspace_def html_to_text_def ok_env_def page_chunks_def enumerate_eq_zip
        generate_embeddings_def embed_batch_def batch_embed_def report_progress_def
        store_vectors_in_firestore_def clear_old_vectors_def write_index_def
        chunks_with_vectors_def doc_exists_def doc_delete_def doc_set_def
        batch_commit_def rag_status_set_def empty_world_def splitlines_def is_linebreak_def)

lemma chunk_doc_id_small:
  "chunk_doc_id 0 = ''chunk_0''" "chunk_doc_id (Suc 0) = ''chunk_1''" "chunk_doc_id 2 = ''chunk_2''"
  by code_simp+

lemma stream_tie_world:
  "stream_chunks tie_world ''alice'' = [stored ''A'' 0 [0, 1], stored ''A'' 1 [1, 0], stored ''B'' 0 [1, 0]]"
  by (simp add: stream_chunks_def tie_world_def indexed_world_def empty_world_def chunk_doc_id_small)

lemma stream_zero_world:
  "stream_chunks zero_world ''alice'' = [stored ''A'' 0 [0, 0], stored ''A'' 1 [1, 0]]"
  by (simp add: stream_chunks_def zero_world_def indexed_world_def empty_world_def chunk_doc_id_small)

lemma tie_world_doc: "rag_docs tie_world ''alice'' \<noteq> None"
  by (simp add: tie_world_def indexed_world_def empty_world_def)

lemma zero_world_doc: "rag_docs zero_world ''alice'' \<noteq> None"
  by (simp add: zero_world_def indexed_world_def empty_world_def)

lemma search_tie_world:
  "search_similar_chunks ok_env ''alice'' tie_world ''q'' 5 =
     [\<lparr>sr_score = 1, sr_chunk = stored ''A'' 1 [1, 0], sr_metadata = sc_metadata (stored ''A'' 1 [1, 0])\<rparr>,
      \<lparr>sr_score = 1, sr_chunk = stored ''B'' 0 [1, 0], sr_metadata = sc_metadata (stored ''B'' 0 [1, 0])\<rparr>,
      \<lparr>sr_score = 0, sr_chunk = stored ''A'' 0 [0, 1], sr_metadata = sc_metadata (stored ''A'' 0 [0, 1])\<rparr>]"
  by (simp add: search_similar_chunks_def ok_env_def stream_tie_world rank_chunks_def
        tie_world_doc score_chunks_eq sort_reverse_def norm_of_def dot_product_def stored_def)

lemma search_zero_world:
  "search_similar_chunks ok_env ''alice'' zero_world ''q'' 5 =
     [\<lparr>sr_score = 1, sr_chunk = stored ''A'' 1 [1, 0], sr_metadata = sc_metadata (stored ''A'' 1 [1, 0])\<rparr>]"
  by (simp add: search_similar_chunks_def ok_env_def stream_zero_world rank_chunks_def
        zero_world_doc score_chunks_eq sort_reverse_def norm_of_def dot_product_def stored_def)

section \<open>The claims\<close>

subsection \<open>C1: clearing the previous index\<close>

text \<open>
  Claim C1 says that \<open>clear_old_vectors\<close> deletes the stored index of the user with every
  chunk record, so that after \<open>store_vectors_in_firestore\<close> only the new chunk records are
  left. The code deletes the document \<^verbatim>\<open>rag/u\<close> only. For a user who had two chunk
  records and now stores one chunk: the store returns, \<^verbatim>\<open>chunk_0\<close> is the new record and
  \<^verbatim>\<open>chunk_1\<close> is still the old one; \<open>clear_old_vectors\<close> alone removes the document and
  leaves both old chunk records.\<close>

theorem replace_keeps_old_chunk:
  "returns (store_vectors_in_firestore ok_env ''alice'' [sample_chunk ''p'' 0 ''hello''] [[1, 0]] old_world)
   \<and> rag_chunks (final_world (store_vectors_in_firestore ok_env ''alice''
                                  [sample_chunk ''p'' 0 ''hello''] [[1, 0]] old_world)) ''alice''
       = [(0, with_vector (sample_chunk ''p'' 0 ''hello'') [1, 0]), (1, old_chunk 1)]
   \<and> rag_docs (final_world (clear_old_vectors ok_env ''alice'' old_world)) ''alice'' = None
   \<and> rag_chunks (final_world (clear_old_vectors ok_env ''alice'' old_world)) ''alice''
       = [(0, old_chunk 0), (1, old_chunk 1)]"
  by (simp add: store_vectors_in_firestore_def clear_old_vectors_def write_index_def
        chunks_with_vectors_def ok_env_def log_step_def doc_exists_def doc_delete_def doc_set_def
        batch_commit_def rag_status_set_def old_world_def empty_world_def batches_from_single
        enumerate_eq_zip)

subsection \<open>C2: a status write that fails\<close>

text \<open>
  Claim C2 says that the result of the pipeline is the same whether a status write
  succeeds or raises. Counterexample: for the same user and the same state,
  \<open>build_rag_index\<close> returns when the status writes succeed and raises when they fail.\<close>

theorem status_failure_fails_build:
  "returns (build_rag_index ok_env ''alice'' empty_world)
   \<and> \<not> returns (build_rag_index dead_sink_env ''alice'' empty_world)"
  by (simp add: build_rag_index_def load_user_pages_def dead_sink_env_def ok_env_def log_step_def)

text \<open>
  Claim C2 as amended: \<open>log_step\<close> does not catch a failure of its status write, it raises
  it; \<open>build_rag_index\<close> raises when the status write of its first step fails; the query
  path (\<open>search_similar_chunks\<close>, \<open>rag_chat\<close>) writes no status, so its result is the same
  whatever the status sink does.\<close>

theorem status_write_failure_propagates:
  "(rtdb_set env step dets = Some e \<longrightarrow> log_step env u step dets w = Raises e w)
   \<and> (rtdb_set env ''RAG Pipeline''
         [(''status'', JStr ''starting''), (''max_pages'', JNat MAX_PAGES_FOR_TESTING),
          (''message'', JStr (''Processing up to '' @ str_nat MAX_PAGES_FOR_TESTING @ '' pages''))] \<noteq> None
        \<longrightarrow> \<not> returns (build_rag_index env u w))
   \<and> search_similar_chunks (env\<lparr>rtdb_set := sink\<rparr>) u w query top_k
        = search_similar_chunks env u w query top_k
   \<and> rag_chat (env\<lparr>rtdb_set := sink\<rparr>) u w query = rag_chat env u w query"
proof -
  have s: "\<And>k. search_similar_chunks (env\<lparr>rtdb_set := sink\<rparr>) u w query k
        = search_similar_chunks env u w query k"
    by (auto simp: search_similar_chunks_def split: sum.splits option.splits)
  have c: "context_block (env\<lparr>rtdb_set := sink\<rparr>) = context_block env"
    by (simp add: fun_eq_iff context_block_def)
  have b: "\<not> returns (build_rag_index env u w)"
    if "rtdb_set env ''RAG Pipeline''
         [(''status'', JStr ''starting''), (''max_pages'', JNat MAX_PAGES_FOR_TESTING),
          (''message'', JStr (''Processing up to '' @ str_nat MAX_PAGES_FOR_TESTING @ '' pages''))] \<noteq> None"
    using that by (auto simp: build_rag_index_def log_step_def)
  show ?thesis
    using b by (simp add: s c rag_chat_def log_step_def Let_def split: sum.splits)
qed

text \<open>Claim C2, the amended statement at a sink that fails on every write.\<close>

theorem status_write_failure_propagates_witness:
  "rtdb_set dead_sink_env ''Loading Pages'' [(''status'', JStr ''starting'')] = Some (Error ''rtdb unavailable'')
   \<and> log_step dead_sink_env ''alice'' ''Loading Pages'' [(''status'', JStr ''starting'')] old_world
        = Raises (Error ''rtdb unavailable'') old_world
   \<and> \<not> returns (build_rag_index dead_sink_env ''alice'' old_world)"
  using status_write_failure_propagates [of dead_sink_env "''Loading Pages''"
          "[(''status'', JStr ''starting'')]" "Error ''rtdb unavailable''" "''alice''" old_world]
  by (simp add: dead_sink_env_def)

subsection \<open>C3: what a build that returns has written\<close>

text \<open>
  Claim C3 says that \<open>build_rag_index\<close> never returns without a newly populated index.
  Counterexample: a user whose only page is blank. The build returns ("No chunks
  created") and the user has neither a document nor a chunk record.\<close>

theorem build_returns_without_index:
  "returns (build_rag_index blank_page_env ''alice'' empty_world)
   \<and> rag_docs (final_world (build_rag_index blank_page_env ''alice'' empty_world)) ''alice'' = None
   \<and> rag_chunks (final_world (build_rag_index blank_page_env ''alice'' empty_world)) ''alice'' = []"
  by (simp add: build_rag_index_def load_user_pages_def create_chunks_with_metadata_def
        blank_page_env_def ok_env_def log_step_def MAX_PAGES_FOR_TESTING_def batches_from_single
        strip_def py_isspace_def html_to_text_def empty_world_def)

text \<open>
  Claim C3 as amended: when \<open>build_rag_index\<close> returns, either \<open>load_user_pages\<close> gave no
  page or \<open>create_chunks_with_metadata\<close> gave no chunk, and then the stored index is what
  it was before; or the chunks are not empty, and then the document of the user holds
  the metadata with \<open>total_chunks\<close> the number of chunks and for each \<open>i\<close> below that
  number the record \<^verbatim>\<open>chunk_i\<close> is chunk \<open>i\<close> with vector \<open>i\<close>.\<close>

theorem build_return_cases:
  assumes "build_rag_index env u w = Returns x w'"
  shows "\<exists>w1 pages w2.
           rag_docs w1 = rag_docs w \<and> rag_chunks w1 = rag_chunks w
         \<and> load_user_pages env u w1 = Returns pages w2
         \<and> (if pages = [] then rag_docs w' = rag_docs w \<and> rag_chunks w' = rag_chunks w
            else \<exists>chunks w3.
                   create_chunks_with_metadata env u pages w2 = Returns chunks w3
                 \<and> (if chunks = [] then rag_docs w' = rag_docs w \<and> rag_chunks w' = rag_chunks w
                    else \<exists>embeddings w4.
                           generate_embeddings env u chunks w3 = Returns embeddings w4
                         \<and> length chunks \<le> length embeddings
                         \<and> (\<exists>d. rag_docs w' u = Some d
                                \<and> im_total_chunks (rd_metadata d) = length chunks)
                         \<and> (\<forall>i<length chunks.
                               map_of (rag_chunks w' u) i
                                 = Some (with_vector (chunks ! i) (embeddings ! i)))))"
proof -
  from assms obtain w1 pages w2 where
    l1: "same_index w w1" and
    l2: "load_user_pages env u w1 = Returns pages w2" and
    rest: "(if pages = [] then
            log_step env u ''RAG Pipeline''
              [(''status'', JStr ''completed''), (''message'', JStr ''No pages found'')] w2
          else
            then_do (create_chunks_with_metadata env u pages w2) (\<lambda>chunks w3.
              if chunks = [] then
                log_step env u ''RAG Pipeline''
                  [(''status'', JStr ''completed''), (''message'', JStr ''No chunks created'')] w3
              else
                then_do (generate_embeddings env u chunks w3) (\<lambda>embeddings w4.
                then_do (store_vectors_in_firestore env u chunks embeddings w4) (\<lambda>_ w5.
                  log_step env u ''RAG Pipeline''
                    [(''status'', JStr ''completed''),
                     (''summary'', JObj [(''pages_processed'', JNat (length pages)),
                                         (''chunks_created'', JNat (length chunks)),
                                         (''embeddings_generated'', JNat (length embeddings)),
                                         (''stored_successfully'', JBool True)])] w5)))) = Returns x w'"
    unfolding build_rag_index_def on_exception_reraise_Returns then_do_Returns_iff
    by (blast dest: log_step_Returns_same)
  have l12: "same_index w w2"
    using l1 load_Returns_same [OF l2] by (rule same_index_trans)
  have tail: "if pages = [] then rag_docs w' = rag_docs w \<and> rag_chunks w' = rag_chunks w
            else \<exists>chunks w3.
                   create_chunks_with_metadata env u pages w2 = Returns chunks w3
                 \<and> (if chunks = [] then rag_docs w' = rag_docs w \<and> rag_chunks w' = rag_chunks w
                    else \<exists>embeddings w4.
                           generate_embeddings env u chunks w3 = Returns embeddings w4
                         \<and> length chunks \<le> length embeddings
                         \<and> (\<exists>d. rag_docs w' u = Some d
                                \<and> im_total_chunks (rd_metadata d) = length chunks)
                         \<and> (\<forall>i<length chunks.
                               map_of (rag_chunks w' u) i
                                 = Some (with_vector (chunks ! i) (embeddings ! i))))"
  proof (cases "pages = []")
    case True
    with rest have "same_index w2 w'" by (simp add: log_step_Returns_same)
    with l12 True show ?thesis by (simp add: same_index_def)
  next
    case False
    with rest obtain chunks w3 where
      c1: "create_chunks_with_metadata env u pages w2 = Returns chunks w3" and
      rest2: "(if chunks = [] then
                log_step env u ''RAG Pipeline''
                  [(''status'', JStr ''completed''), (''message'', JStr ''No chunks created'')] w3
              else
                then_do (generate_embeddings env u chunks w3) (\<lambda>embeddings w4.
                then_do (store_vectors_in_firestore env u chunks embeddings w4) (\<lambda>_ w5.
                  log_step env u ''RAG Pipeline''
                    [(''status'', JStr ''completed''),
                     (''summary'', JObj [(''pages_processed'', JNat (length pages)),
                                         (''chunks_created'', JNat (length chunks)),
                                         (''embeddings_generated'', JNat (length embeddings)),
                                         (''stored_successfully'', JBool True)])] w5))) = Returns x w'"
      by (auto simp: then_do_Returns_iff)
    have l3: "same_index w w3"
      using l12 create_Returns_same [OF c1] by (rule same_index_trans)
    show ?thesis
    proof (cases "chunks = []")
      case True
      with rest2 have "same_index w3 w'" by (simp add: log_step_Returns_same)
      with l3 True c1 \<open>pages \<noteq> []\<close> show ?thesis by (auto simp: same_index_def)
    next
      case nonempty: False
      with rest2 obtain embeddings w4 w5 where
        g: "generate_embeddings env u chunks w3 = Returns embeddings w4" and
        s: "store_vectors_in_firestore env u chunks embeddings w4 = Returns () w5" and
        l: "same_index w5 w'"
        by (auto simp: then_do_Returns_iff dest: log_step_Returns_same)
      note st = store_Returns [OF s]
      from st l have "length chunks \<le> length embeddings
          \<and> (\<exists>d. rag_docs w' u = Some d \<and> im_total_chunks (rd_metadata d) = length chunks)
          \<and> (\<forall>i<length chunks. map_of (rag_chunks w' u) i = Some (with_vector (chunks ! i) (embeddings ! i)))"
        by (simp add: same_index_def)
      with g c1 nonempty \<open>pages \<noteq> []\<close> show ?thesis by auto
    qed
  qed
  from l1 l2 tail show ?thesis
    unfolding same_index_def by blast
qed

text \<open>Claim C3, the amended statement at a user with one page of one word: the build
  returns and has written the document and \<^verbatim>\<open>chunk_0\<close>.\<close>

theorem build_return_cases_witness:
  "build_rag_index one_page_env ''alice'' empty_world
     = Returns () (final_world (build_rag_index one_page_env ''alice'' empty_world))
   \<and> (\<exists>d. rag_docs (final_world (build_rag_index one_page_env ''alice'' empty_world)) ''alice'' = Some d)
   \<and> map_of (rag_chunks (final_world (build_rag_index one_page_env ''alice'' empty_world)) ''alice'') 0
        \<noteq> None"
proof -
  have h: "build_rag_index one_page_env ''alice'' empty_world
     = Returns () (final_world (build_rag_index one_page_env ''alice'' empty_world))"
    using build_one_page by (rule returns_unit)
  have p: "load_user_pages one_page_env ''alice'' w1 = Returns pages w2 \<Longrightarrow> pages \<noteq> []" for w1 pages w2
    by (auto simp: load_user_pages_def one_page_env_def ok_env_def log_step_def
          MAX_PAGES_FOR_TESTING_def batches_from_single Let_def strip_def py_isspace_def)
  have c: "create_chunks_with_metadata one_page_env ''alice'' pages w2 = Returns chunks w3
             \<Longrightarrow> load_user_pages one_page_env ''alice'' w1 = Returns pages w2 \<Longrightarrow> chunks \<noteq> []"
    for w1 pages w2 chunks w3
    by (auto simp: load_user_pages_def create_chunks_with_metadata_def one_page_env_def ok_env_def
          log_step_def MAX_PAGES_FOR_TESTING_def batches_from_single strip_def py_isspace_def
          html_to_text_def splitlines_def is_linebreak_def page_chunks_def enumerate_eq_zip Let_def)
  from build_return_cases [OF h] p c show ?thesis
    using h by (auto split: if_splits)
qed

subsection \<open>C4: a question without a stored index\<close>

text \<open>
  Claim C4 says that \<open>rag_chat\<close> for a user without a stored index returns the fixed
  "not found" answer with no matches and \<^verbatim>\<open>context_used\<close> equal to 0, and never
  raises. For every environment, state and question, when the user has no document,
  the dictionary returned has the answer \<^verbatim>\<open>NOT_FOUND\<close>, no matches and a message, and it
  has no key \<^verbatim>\<open>context_used\<close> at all (nor \<^verbatim>\<open>error\<close>).\<close>

theorem rag_chat_without_index:
  "rag_chat env u (w\<lparr>rag_docs := (rag_docs w)(u := None)\<rparr>) question =
     \<lparr>ra_answer = ''NOT_FOUND'', ra_matches = [], ra_context_used = None,
      ra_message = Some ''No relevant content found in your knowledge base.'',
      ra_error = None\<rparr>"
  by (simp add: rag_chat_def search_similar_chunks_def split: sum.splits option.splits)

subsection \<open>C5: the order of the results\<close>

text \<open>
  Claim C5 says that chunks of equal score are ranked by ascending \<^verbatim>\<open>chunk_index\<close>.
  Counterexample: in \<open>tie_world\<close> the chunk 1 of page A and the chunk 0 of page B have
  the same score 1, and the one with \<^verbatim>\<open>chunk_index\<close> 1 comes first.\<close>

theorem ties_keep_stream_order:
  "map sr_score (search_similar_chunks ok_env ''alice'' tie_world ''q'' TOP_K) = [1, 1, 0]
   \<and> map (page_id \<circ> sr_metadata) (search_similar_chunks ok_env ''alice'' tie_world ''q'' TOP_K)
       = [''A'', ''B'', ''A'']
   \<and> map (chunk_index \<circ> sr_metadata) (search_similar_chunks ok_env ''alice'' tie_world ''q'' TOP_K)
       = [1, 0, 0]"
  by (simp add: TOP_K_def search_tie_world stored_def)

text \<open>
  Claim C5 as amended: when the calls of the retriever do not raise and the user has a
  document, the result is a function of the query vector, the streamed chunks and
  \<open>top_k\<close> alone (so two calls give the same list); the scores descend; the chunks of
  one score \<open>s\<close> in the result are the first ones, in the order of the stream, among
  the scored chunks of score \<open>s\<close>; and the scored chunks follow the order of the
  stream. The \<^verbatim>\<open>chunk_index\<close> plays no part.\<close>

theorem retrieval_order:
  assumes "embed_content env query = Inr qv" and "fs_doc_get env = None"
    and "rag_docs w u \<noteq> None" and "fs_stream env = None"
  shows "search_similar_chunks env u w query top_k = rank_chunks qv (stream_chunks w u) top_k
       \<and> sorted_wrt (\<ge>) (map sr_score (search_similar_chunks env u w query top_k))
       \<and> prefix (map sr_chunk (filter (\<lambda>r. sr_score r = s)
                                  (search_similar_chunks env u w query top_k)))
                (map snd (filter (\<lambda>p. fst p = s) (score_chunks qv (stream_chunks w u) [])))
       \<and> subseq (map snd (score_chunks qv (stream_chunks w u) [])) (stream_chunks w u)"
proof -
  let ?S = "score_chunks qv (stream_chunks w u) []"
  have a: "search_similar_chunks env u w query top_k = rank_chunks qv (stream_chunks w u) top_k"
    using assms by (auto simp: search_similar_chunks_def)
  have b: "sorted_wrt (\<ge>) (map sr_score (rank_chunks qv (stream_chunks w u) top_k))"
    unfolding rank_chunks_scores
    by (rule sorted_wrt_take) (rule sort_reverse_descending)
  have "prefix (filter (\<lambda>p. fst p = s) (take top_k (sort_reverse fst ?S)))
               (filter (\<lambda>p. fst p = s) (sort_reverse fst ?S))"
    by (rule filter_mono_prefix) (rule take_is_prefix)
  then have "prefix (filter (\<lambda>p. fst p = s) (take top_k (sort_reverse fst ?S)))
               (filter (\<lambda>p. fst p = s) ?S)"
    by (simp add: sort_reverse_stable)
  then have c: "prefix (map sr_chunk (filter (\<lambda>r. sr_score r = s) (rank_chunks qv (stream_chunks w u) top_k)))
                (map snd (filter (\<lambda>p. fst p = s) ?S))"
    unfolding rank_chunks_ties by (rule map_mono_prefix)
  have d: "subseq (map snd ?S) (stream_chunks w u)"
    by (simp add: score_chunks_eq comp_def)
  from a b c d show ?thesis by simp
qed

text \<open>Claim C5, the amended statement for \<open>tie_world\<close>, \<open>top_k = 2\<close> and the score 1.\<close>

theorem retrieval_order_witness:
  "embed_content ok_env ''q'' = Inr [1, 0] \<and> fs_doc_get ok_env = None
   \<and> rag_docs tie_world ''alice'' \<noteq> None \<and> fs_stream ok_env = None
   \<and> search_similar_chunks ok_env ''alice'' tie_world ''q'' 2
        = rank_chunks [1, 0] (stream_chunks tie_world ''alice'') 2
   \<and> sorted_wrt (\<ge>) (map sr_score (search_similar_chunks ok_env ''alice'' tie_world ''q'' 2))
   \<and> prefix (map sr_chunk (filter (\<lambda>r. sr_score r = 1)
                              (search_similar_chunks ok_env ''alice'' tie_world ''q'' 2)))
            (map snd (filter (\<lambda>p. fst p = 1) (score_chunks [1, 0] (stream_chunks tie_world ''alice'') [])))
   \<and> subseq (map snd (score_chunks [1, 0] (stream_chunks tie_world ''alice'') []))
            (stream_chunks tie_world ''alice'')"
proof -
  have h: "embed_content ok_env ''q'' = Inr [1, 0]" "fs_doc_get ok_env = None"
    "rag_docs tie_world ''alice'' \<noteq> None" "fs_stream ok_env = None"
    by (simp_all add: ok_env_def tie_world_doc)
  show ?thesis
    using h retrieval_order [OF h, of 2 1] by blast
qed

subsection \<open>C6: one vector for each chunk\<close>

text \<open>
  Claim C6 says that \<open>generate_embeddings\<close> returns exactly one vector for each chunk.
  The progress report is inside the \<^verbatim>\<open>try\<close> of the batch: when its status write raises,
  the handler for a failed batch appends a vector of zeros for each chunk of the batch
  although the vectors of the batch are already there. For one chunk, with the status
  write of "Embedding Progress" failing, the call returns two vectors.\<close>

theorem generate_embeddings_extra_vector:
  "returned (generate_embeddings flaky_status_env ''alice'' [sample_chunk ''p'' 0 ''hello''] empty_world)
     = Some [[1, 0], replicate EMBED_DIM 0]"
  by (simp add: generate_embeddings_def flaky_status_env_def ok_env_def log_step_def
        batches_from_single embed_batch_def batch_embed_def report_progress_def sample_chunk_def
        zero_vector_def)

subsection \<open>C7: a request that fails inside a batch\<close>




subsection \<open>C8: chunks with a vector of zeros\<close>

text \<open>
  Claim C8: a stored chunk whose embedding is zero everywhere is in no result of
  \<open>search_similar_chunks\<close>, for every stored index, query and \<open>top_k\<close>.\<close>

theorem zero_norm_chunk_not_retrieved:
  assumes "\<forall>x\<in>set (embedding c). x = 0"
  shows "c \<notin> sr_chunk ` set (search_similar_chunks env u w query top_k)"
proof
  assume "c \<in> sr_chunk ` set (search_similar_chunks env u w query top_k)"
  then obtain r where r: "r \<in> set (search_similar_chunks env u w query top_k)" and c: "c = sr_chunk r"
    by auto
  from r obtain qv where "r \<in> set (rank_chunks qv (stream_chunks w u) top_k)"
    by (auto simp: search_similar_chunks_def split: sum.splits option.splits if_splits)
  then have "0 < norm_of (embedding c)"
    using rank_chunks_positive_norm c by blast
  with norm_of_zero [OF assms] show False by simp
qed

text \<open>Claim C8 at an index of two chunks, one of them with the vector \<open>[0, 0]\<close>: it is
  streamed and it is not in the result, the other chunk is.\<close>

theorem zero_norm_chunk_not_retrieved_witness:
  "embedding (stored ''A'' 0 [0, 0]) = [0, 0]
   \<and> stored ''A'' 0 [0, 0] \<in> set (stream_chunks zero_world ''alice'')
   \<and> stored ''A'' 0 [0, 0] \<notin> sr_chunk ` set (search_similar_chunks ok_env ''alice'' zero_world ''q'' 5)
   \<and> map (chunk_index \<circ> sr_metadata) (search_similar_chunks ok_env ''alice'' zero_world ''q'' 5) = [1]"
  using zero_norm_chunk_not_retrieved [of "stored ''A'' 0 [0, 0]" ok_env "''alice''" zero_world "''q''" 5]
  by (simp add: stream_zero_world search_zero_world) (simp add: stored_def)

subsection \<open>C10: a deletion that fails\<close>

text \<open>
  Claim C10: when the status writes succeed and the deletion of the user's document
  raises, \<open>clear_old_vectors\<close> returns, having recorded the error as the current step
  and changed nothing else; \<open>store_vectors_in_firestore\<close> goes on to the writes and
  returns exactly when they do; and when the writes succeed and there is a vector for
  each chunk, it returns with the metadata document and every chunk record written.\<close>

theorem clear_failure_is_absorbed:
  assumes "\<forall>step dets. rtdb_set env step dets = None"
    and "fs_doc_get env = None" and "rag_docs w u \<noteq> None" and "fs_doc_delete env = Some e"
  shows "clear_old_vectors env u w =
           Returns () (w\<lparr>current_step := (current_step w)(u \<mapsto>
              \<lparr>sm_step = ''Clear Vectors'',
               sm_details = [(''status'', JStr ''error''), (''error'', JStr (str_exn e))]\<rparr>)\<rparr>)
       \<and> returns (store_vectors_in_firestore env u chunks embeddings w) =
           returns (write_index env u chunks embeddings
             (w\<lparr>current_step := (current_step w)(u \<mapsto>
                \<lparr>sm_step = ''Clear Vectors'',
                 sm_details = [(''status'', JStr ''error''), (''error'', JStr (str_exn e))]\<rparr>)\<rparr>))
       \<and> (fs_doc_set env = None \<and> (\<forall>n. fs_batch_commit env n = None) \<and> rtdb_rag_set env = None
            \<and> length chunks \<le> length embeddings \<longrightarrow>
           (\<exists>w'. store_vectors_in_firestore env u chunks embeddings w = Returns () w'
                \<and> (\<exists>d. rag_docs w' u = Some d \<and> im_total_chunks (rd_metadata d) = length chunks)
                \<and> (\<forall>i<length chunks.
                      map_of (rag_chunks w' u) i = Some (with_vector (chunks ! i) (embeddings ! i)))))"
proof -
  let ?wc = "w\<lparr>current_step := (current_step w)(u \<mapsto>
              \<lparr>sm_step = ''Clear Vectors'',
               sm_details = [(''status'', JStr ''error''), (''error'', JStr (str_exn e))]\<rparr>)\<rparr>"
  have clear: "\<And>w0. rag_docs w0 u \<noteq> None \<Longrightarrow> clear_old_vectors env u w0 =
      Returns () (w0\<lparr>current_step := (current_step w0)(u \<mapsto>
              \<lparr>sm_step = ''Clear Vectors'',
               sm_details = [(''status'', JStr ''error''), (''error'', JStr (str_exn e))]\<rparr>)\<rparr>)"
    using assms(1,2,4)
    by (simp add: clear_old_vectors_def log_step_def doc_exists_def doc_delete_def)
  have store: "store_vectors_in_firestore env u chunks embeddings w =
      on_exception (write_index env u chunks embeddings ?wc)
         (\<lambda>e w3. then_do (log_step env u ''Storing Vectors''
                            [(''status'', JStr ''error''), (''error'', JStr (str_exn e))] w3)
                    (\<lambda>_ w4. Raises e w4))"
    using assms(1,3) by (simp add: store_vectors_in_firestore_def log_step_def clear)
  have r: "returns (store_vectors_in_firestore env u chunks embeddings w) =
           returns (write_index env u chunks embeddings ?wc)"
    unfolding store by (cases "write_index env u chunks embeddings ?wc") simp_all
  have "\<exists>w'. store_vectors_in_firestore env u chunks embeddings w = Returns () w'
                \<and> (\<exists>d. rag_docs w' u = Some d \<and> im_total_chunks (rd_metadata d) = length chunks)
                \<and> (\<forall>i<length chunks.
                      map_of (rag_chunks w' u) i = Some (with_vector (chunks ! i) (embeddings ! i)))"
    if ok: "fs_doc_set env = None" "\<forall>n. fs_batch_commit env n = None" "rtdb_rag_set env = None"
       "length chunks \<le> length embeddings"
  proof -
    have "returns (write_index env u chunks embeddings ?wc)"
      using assms(1) ok by (intro write_index_ok) simp_all
    with r have "returns (store_vectors_in_firestore env u chunks embeddings w)" by simp
    then have eq: "store_vectors_in_firestore env u chunks embeddings w =
        Returns () (final_world (store_vectors_in_firestore env u chunks embeddings w))"
      by (rule returns_unit)
    from store_Returns [OF eq] eq show ?thesis by blast
  qed
  with clear [OF assms(3)] r show ?thesis by blast
qed

text \<open>Claim C10 at a user with a stored index whose deletion is refused.\<close>

theorem clear_failure_is_absorbed_witness:
  "(\<forall>step dets. rtdb_set failing_delete_env step dets = None)
   \<and> fs_doc_get failing_delete_env = None \<and> rag_docs old_world ''alice'' \<noteq> None
   \<and> fs_doc_delete failing_delete_env = Some (Error ''permission denied'')
   \<and> returns (clear_old_vectors failing_delete_env ''alice'' old_world)
   \<and> returns (store_vectors_in_firestore failing_delete_env ''alice''
                [sample_chunk ''p'' 0 ''hello''] [[1, 0]] old_world)
   \<and> map_of (rag_chunks (final_world (store_vectors_in_firestore failing_delete_env ''alice''
                [sample_chunk ''p'' 0 ''hello''] [[1, 0]] old_world)) ''alice'') 0
        = Some (with_vector (sample_chunk ''p'' 0 ''hello'') [1, 0])"
proof -
  have h: "\<forall>step dets. rtdb_set failing_delete_env step dets = None"
    "fs_doc_get failing_delete_env = None" "rag_docs old_world ''alice'' \<noteq> None"
    "fs_doc_delete failing_delete_env = Some (Error ''permission denied'')"
    by (simp_all add: failing_delete_env_def ok_env_def old_world_def empty_world_def)
  have ok: "fs_doc_set failing_delete_env = None \<and> (\<forall>n. fs_batch_commit failing_delete_env n = None)
      \<and> rtdb_rag_set failing_delete_env = None
      \<and> length [sample_chunk ''p'' 0 ''hello''] \<le> length [[1::real, 0]]"
    by (simp add: failing_delete_env_def ok_env_def)
  show ?thesis
    using h ok clear_failure_is_absorbed [OF h, of "[sample_chunk ''p'' 0 ''hello'']" "[[1, 0]]"]
    by auto
qed

end
